theory Spec2Isabelle
  imports Main "HOL-Library.Sublist"
begin

section \<open>JavaScript values and strings\<close>

text \<open>
  Strings are byte lists; the texts the server inspects are taken to be ASCII, so
  \<open>toLowerCase\<close> maps \<open>A..Z\<close> to \<open>a..z\<close> and \<open>trim\<close> strips the ASCII white space
  (tab, line feed, vertical tab, form feed, carriage return, space) from both ends.
  Characters outside ASCII in the server's own messages are written as their UTF-8 bytes.
\<close>

definition toLowerChar :: "char \<Rightarrow> char" where
  "toLowerChar c =
     (case map_of (zip ''ABCDEFGHIJKLMNOPQRSTUVWXYZ'' ''abcdefghijklmnopqrstuvwxyz'') c of
        Some d \<Rightarrow> d | None \<Rightarrow> c)"

definition toLowerCase :: "string \<Rightarrow> string" where
  "toLowerCase s = map toLowerChar s"

definition isWhiteSpace :: "char \<Rightarrow> bool" where
  "isWhiteSpace c = (c \<in> set [CHR 0x09, CHR 0x0A, CHR 0x0B, CHR 0x0C, CHR 0x0D, CHR '' ''])"

definition trim :: "string \<Rightarrow> string" where
  "trim s = rev (dropWhile isWhiteSpace (rev (dropWhile isWhiteSpace s)))"

text \<open>\<open>s.includes(w)\<close>: \<open>w\<close> occurs in \<open>s\<close> at some position.\<close>

fun str_includes :: "string \<Rightarrow> string \<Rightarrow> bool" where
  "str_includes [] w = (w = [])"
| "str_includes (c # cs) w = (prefix w (c # cs) \<or> str_includes cs w)"

text \<open>\<open>xs.join(sep)\<close> on a list of strings.\<close>

fun join :: "string \<Rightarrow> string list \<Rightarrow> string" where
  "join sep [] = []"
| "join sep [x] = x"
| "join sep (x # y # ys) = x @ sep @ join sep (y # ys)"

text \<open>Decimal rendering of a number inside a template literal.\<close>

definition digit :: "nat \<Rightarrow> char" where
  "digit d = ''0123456789'' ! d"

fun dec :: "nat \<Rightarrow> string" where
  "dec n = (if n < 10 then [digit n] else dec (n div 10) @ [digit (n mod 10)])"

declare dec.simps [simp del]

definition dec_int :: "int \<Rightarrow> string" where
  "dec_int i = (if i < 0 then ''-'' @ dec (nat (- i)) else dec (nat i))"

text \<open>
  A JSON value as a tool call carries it. A number stands for an integer that JavaScript
  prints in plain decimal (magnitude below \<open>10^21\<close>); other numbers are not covered. An
  object lists its fields with distinct keys. A field that is absent from an object reads
  as \<open>undefined\<close>, modelled by \<open>None\<close>. The arguments of a tool call are an object or are
  omitted, which is \<open>None\<close> of type \<open>jsobj option\<close>.
\<close>

datatype jsval =
    JNull
  | JBool bool
  | JNum int
  | JStr string
  | JArr "jsval list"
  | JObj "(string \<times> jsval) list"

type_synonym jsobj = "(string \<times> jsval) list"

definition field :: "jsobj \<Rightarrow> string \<Rightarrow> jsval option" where
  "field obj k = map_of obj k"

section \<open>Errors\<close>

text \<open>
  A thrown value is either an \<open>McpError\<close> with its code and the message the server gave
  it, or any other JavaScript error (a \<open>TypeError\<close>, a database error) with its message.
  Whatever the protocol library adds to the message of an \<open>McpError\<close> is left out.
\<close>

datatype errorCode = InvalidRequest | MethodNotFound | InternalError

datatype error = McpError errorCode string | JsError string

fun error_message :: "error \<Rightarrow> string" where
  "error_message (McpError c m) = m"
| "error_message (JsError m) = m"

definition sq :: string where
  "sq = [CHR 0x27]"

definition undefinedProperty :: "string \<Rightarrow> error" where
  "undefinedProperty k =
     JsError (''Cannot read properties of undefined (reading '' @ sq @ k @ sq @ '')'')"

definition nullProperty :: "string \<Rightarrow> error" where
  "nullProperty k = JsError (''Cannot read properties of null (reading '' @ sq @ k @ sq @ '')'')"

definition cannotConvert :: error where
  "cannotConvert = JsError ''Cannot convert object to primitive value''"

text \<open>The results of a sequence of steps, up to the first one that throws.\<close>

fun collect :: "(error + 'a) list \<Rightarrow> error + 'a list" where
  "collect [] = Inr []"
| "collect (Inl e # xs) = Inl e"
| "collect (Inr x # xs) = (case collect xs of Inl e \<Rightarrow> Inl e | Inr ys \<Rightarrow> Inr (x # ys))"

text \<open>
  A template literal: its parts are evaluated from left to right and concatenated; the
  first part that throws ends the evaluation.
\<close>

definition template :: "(error + string) list \<Rightarrow> error + string" where
  "template parts = (case collect parts of Inl e \<Rightarrow> Inl e | Inr ss \<Rightarrow> Inr (concat ss))"

text \<open>
  Property access \<open>v.k\<close> on an arbitrary value: it throws on \<open>undefined\<close> and \<open>null\<close>,
  reads the field of an object, and finds nothing on any other value (the keys read here
  are no properties of strings, numbers, booleans or arrays).
\<close>

fun getProp :: "jsval option \<Rightarrow> string \<Rightarrow> error + jsval option" where
  "getProp None k = Inl (undefinedProperty k)"
| "getProp (Some JNull) k = Inl (nullProperty k)"
| "getProp (Some (JObj obj)) k = Inr (field obj k)"
| "getProp (Some v) k = Inr None"

text \<open>Property access \<open>args.k\<close> on the arguments of a tool call.\<close>

fun argument :: "jsobj option \<Rightarrow> string \<Rightarrow> error + jsval option" where
  "argument None k = Inl (undefinedProperty k)"
| "argument (Some obj) k = Inr (field obj k)"

fun truthy :: "jsval option \<Rightarrow> bool" where
  "truthy None = False"
| "truthy (Some JNull) = False"
| "truthy (Some (JBool b)) = b"
| "truthy (Some (JNum n)) = (n \<noteq> 0)"
| "truthy (Some (JStr s)) = (s \<noteq> [])"
| "truthy (Some (JArr xs)) = True"
| "truthy (Some (JObj obj)) = True"

text \<open>
  String coercion of a value, as a template literal \<open>${v}\<close> performs it. An array is
  joined with commas, \<open>null\<close> elements giving the empty string. An object prints as
  \<open>[object Object]\<close> unless it has a field \<open>toString\<close> of its own: that field hides the
  inherited method and is not callable, so the coercion throws a \<open>TypeError\<close>.
\<close>

fun js_string :: "jsval \<Rightarrow> error + string" where
  "js_string JNull = Inr ''null''"
| "js_string (JBool b) = Inr (if b then ''true'' else ''false'')"
| "js_string (JNum n) = Inr (dec_int n)"
| "js_string (JStr s) = Inr s"
| "js_string (JArr xs) =
     (case collect (map (\<lambda>x. if x = JNull then Inr [] else js_string x) xs) of
        Inl e \<Rightarrow> Inl e
      | Inr ss \<Rightarrow> Inr (join '','' ss))"
| "js_string (JObj obj) =
     (if ''toString'' \<in> fst ` set obj then Inl cannotConvert else Inr ''[object Object]'')"

fun toStr :: "jsval option \<Rightarrow> error + string" where
  "toStr None = Inr ''undefined''"
| "toStr (Some v) = js_string v"

definition nl :: string where
  "nl = [CHR 0x0A]"

definition dq :: string where
  "dq = [CHR 0x22]"

section \<open>The contextual memory\<close>

text \<open>
  Class \<open>ContextualMemory\<close>. The result of an operation is either the content object
  \<open>{content: [{type: 'text', text}]}\<close> or the object \<open>{error: message}\<close> that the request
  handler records for a failed call. Times are milliseconds since the epoch. Writing the
  sessions to disk changes nothing in memory and its failures are swallowed, so
  \<open>saveToDisk\<close> has no counterpart here.
\<close>

datatype result = Content string | ErrorResult string

datatype storedResult = Sanitized | Verbatim result

record interaction =
  i_timestamp :: nat
  i_operation :: string
  i_params :: jsobj
  i_result :: storedResult
  i_context :: jsobj

record recentEvent =
  ev_id :: "string option"
  ev_title :: "jsval option"
  ev_startDate :: "jsval option"
  ev_endDate :: "jsval option"
  ev_operation :: string
  ev_timestamp :: nat

record recentList =
  li_id :: "string option"
  li_name :: "jsval option"
  li_operation :: string
  li_timestamp :: nat

record recentItem =
  it_id :: "string option"
  it_content :: "jsval option"
  it_listId :: "jsval option"
  it_operation :: string
  it_timestamp :: nat

datatype focus =
    EventFocus "string option" "jsval option"
  | ListFocus "string option" "jsval option"
  | RelationshipFocus "jsval option" "jsval option"

record sessionContext =
  recentEvents :: "recentEvent list"
  recentLists :: "recentList list"
  recentItems :: "recentItem list"
  userPreferences :: "string \<rightharpoonup> jsval"
  currentFocus :: "focus option"

record session =
  interactions :: "interaction list"
  sContext :: sessionContext
  created :: nat
  lastAccessed :: nat

record memory =
  maxEntries :: nat
  sessions :: "string \<rightharpoonup> session"

definition newMemory :: memory where
  "newMemory = \<lparr>maxEntries = 100, sessions = Map.empty\<rparr>"

definition newSession :: "nat \<Rightarrow> session" where
  "newSession now =
     \<lparr>interactions = [],
      sContext = \<lparr>recentEvents = [], recentLists = [], recentItems = [],
                 userPreferences = Map.empty, currentFocus = None\<rparr>,
      created = now, lastAccessed = now\<rparr>"

text \<open>\<open>getSession\<close> creates the session when it is missing and refreshes \<open>lastAccessed\<close>.\<close>

definition getSession :: "memory \<Rightarrow> string \<Rightarrow> nat \<Rightarrow> session \<times> memory" where
  "getSession mem sessionId now =
     (let s0 = (case sessions mem sessionId of None \<Rightarrow> newSession now | Some s \<Rightarrow> s);
          s = s0\<lparr>lastAccessed := now\<rparr>
      in (s, mem\<lparr>sessions := (sessions mem)(sessionId \<mapsto> s)\<rparr>))"

definition sanitizeParams :: "jsobj \<Rightarrow> jsobj" where
  "sanitizeParams params = params"

fun sanitizeResult :: "result \<Rightarrow> storedResult" where
  "sanitizeResult (Content t) = Sanitized"
| "sanitizeResult r = Verbatim r"

text \<open>
  \<open>extractId\<close>: the first match of \<open>/ID:\s*([a-f0-9]{24})/i\<close> in the result text.
\<close>

definition isHexDigit :: "char \<Rightarrow> bool" where
  "isHexDigit c = (c \<in> set ''0123456789abcdefABCDEF'')"

fun matchId :: "string \<Rightarrow> string option" where
  "matchId [] = None"
| "matchId (c # cs) =
     (if toLowerCase (take 3 (c # cs)) = ''id:'' then
        (let h = take 24 (dropWhile isWhiteSpace (drop 3 (c # cs)))
         in if length h = 24 \<and> list_all isHexDigit h then Some h else matchId cs)
      else matchId cs)"

fun extractId :: "result \<Rightarrow> string option" where
  "extractId (Content t) = matchId t"
| "extractId r = None"

text \<open>
  \<open>updateContext\<close>. No result object of the server has a \<open>success\<close> field, so the test
  \<open>result.success !== false\<close> of the three create cases always holds.
\<close>

definition updateContext ::
  "sessionContext \<Rightarrow> string \<Rightarrow> jsobj \<Rightarrow> result \<Rightarrow> nat \<Rightarrow> sessionContext" where
  "updateContext c operation params res now =
     (let c1 =
        (if operation = ''create_event'' then
           c\<lparr>recentEvents :=
                \<lparr>ev_id = extractId res, ev_title = field params ''title'',
                 ev_startDate = field params ''startDate'',
                 ev_endDate = field params ''endDate'',
                 ev_operation = ''created'', ev_timestamp = now\<rparr> # recentEvents c,
              currentFocus := Some (EventFocus (extractId res) (field params ''title''))\<rparr>
         else if operation = ''create_list'' then
           c\<lparr>recentLists :=
                \<lparr>li_id = extractId res, li_name = field params ''name'',
                 li_operation = ''created'', li_timestamp = now\<rparr> # recentLists c,
              currentFocus := Some (ListFocus (extractId res) (field params ''name''))\<rparr>
         else if operation = ''create_item'' then
           c\<lparr>recentItems :=
                \<lparr>it_id = extractId res, it_content = field params ''content'',
                 it_listId = field params ''listId'',
                 it_operation = ''created'', it_timestamp = now\<rparr> # recentItems c\<rparr>
         else if operation = ''get_events'' then
           (let p1 = (if truthy (field params ''calendarId'')
                      then (userPreferences c)(''preferredCalendar'' := field params ''calendarId'')
                      else userPreferences c);
                p2 = (if truthy (field params ''ownerId'')
                      then p1(''userId'' := field params ''ownerId'')
                      else p1)
            in c\<lparr>userPreferences := p2\<rparr>)
         else if operation = ''assign_list_to_event'' then
           c\<lparr>currentFocus :=
                Some (RelationshipFocus (field params ''eventId'') (field params ''listId''))\<rparr>
         else c)
      in c1\<lparr>recentEvents := take 10 (recentEvents c1),
             recentLists := take 10 (recentLists c1),
             recentItems := take 20 (recentItems c1)\<rparr>)"

text \<open>
  \<open>addInteraction\<close>: the new interaction goes to the front of the log, which is cut back
  to its first \<open>maxEntries\<close> entries when it has grown beyond them.
\<close>

definition addInteraction ::
  "memory \<Rightarrow> string \<Rightarrow> string \<Rightarrow> jsobj \<Rightarrow> result \<Rightarrow> nat \<Rightarrow> memory" where
  "addInteraction mem sessionId operation params res now =
     (let (s, mem1) = getSession mem sessionId now;
          i = \<lparr>i_timestamp = now, i_operation = operation,
               i_params = sanitizeParams params, i_result = sanitizeResult res,
               i_context = []\<rparr>;
          log1 = i # interactions s;
          log2 = (if length log1 > maxEntries mem1 then take (maxEntries mem1) log1 else log1);
          s1 = s\<lparr>interactions := log2\<rparr>;
          s2 = s1\<lparr>sContext := updateContext (sContext s1) operation params res now\<rparr>
      in mem1\<lparr>sessions := (sessions mem1)(sessionId \<mapsto> s2)\<rparr>)"

text \<open>
  \<open>addInteraction\<close> as the handler calls it: the arguments of the tool call may be
  undefined. The copy that is logged is then the empty object, and \<open>updateContext\<close>
  throws in the five cases that read a field of the arguments, after the log has been
  updated and before the context is touched.
\<close>

definition firstParamRead :: "string \<Rightarrow> string option" where
  "firstParamRead operation =
     map_of [(''create_event'', ''title''), (''create_list'', ''name''),
             (''create_item'', ''content''), (''get_events'', ''calendarId''),
             (''assign_list_to_event'', ''eventId'')] operation"

definition addInteraction_call ::
  "memory \<Rightarrow> string \<Rightarrow> string \<Rightarrow> jsobj option \<Rightarrow> result \<Rightarrow> nat \<Rightarrow> error option \<times> memory" where
  "addInteraction_call mem sessionId operation params res now =
     (case params of
        Some p \<Rightarrow> (None, addInteraction mem sessionId operation p res now)
      | None \<Rightarrow>
          (case firstParamRead operation of
             None \<Rightarrow> (None, addInteraction mem sessionId operation [] res now)
           | Some k \<Rightarrow>
               (let (s, mem1) = getSession mem sessionId now;
                    i = \<lparr>i_timestamp = now, i_operation = operation, i_params = [],
                         i_result = sanitizeResult res, i_context = []\<rparr>;
                    log1 = i # interactions s;
                    log2 = (if length log1 > maxEntries mem1
                            then take (maxEntries mem1) log1 else log1)
                in (Some (undefinedProperty k),
                    mem1\<lparr>sessions :=
                           (sessions mem1)(sessionId \<mapsto> s\<lparr>interactions := log2\<rparr>)\<rparr>))))"

text \<open>
  \<open>getContextualSuggestions\<close>; the operation and its parameters are arbitrary values
  (\<open>get_context\<close> passes whatever the caller sent).
\<close>

definition getContextualSuggestions ::
  "memory \<Rightarrow> string \<Rightarrow> jsval option \<Rightarrow> jsval option \<Rightarrow> nat
   \<Rightarrow> (error + string list) \<times> memory" where
  "getContextualSuggestions mem sessionId currentOperation currentParams now =
     (let (s, mem1) = getSession mem sessionId now;
          c = sContext s;
          sg1 = (if currentOperation = Some (JStr ''create_item'') then
                   (case getProp currentParams ''listId'' of
                      Inl e \<Rightarrow> Inl e
                    | Inr listId \<Rightarrow>
                        if \<not> truthy listId then
                          (case recentLists c of
                             [] \<Rightarrow> Inr []
                           | l # _ \<Rightarrow>
                               collect
                                 [template
                                    [Inr (''You recently created a list '' @ dq),
                                     toStr (li_name l), Inr (dq @ '' (''),
                                     Inr (case li_id l of None \<Rightarrow> ''null'' | Some i \<Rightarrow> i),
                                     Inr ''). Would you like to add this item there?'']])
                        else Inr [])
                 else Inr []);
          sg2 = (if currentOperation = Some (JStr ''assign_list_to_event'') then
                   (case getProp currentParams ''eventId'' of
                      Inl e \<Rightarrow> Inl e
                    | Inr eventId \<Rightarrow>
                        if \<not> truthy eventId then
                          (case recentEvents c of
                             [] \<Rightarrow> Inr []
                           | e # _ \<Rightarrow>
                               collect
                                 [template
                                    [Inr (''You recently created event '' @ dq),
                                     toStr (ev_title e), Inr (dq @ '' (''),
                                     Inr (case ev_id e of None \<Rightarrow> ''null'' | Some i \<Rightarrow> i),
                                     Inr ''). Is this the event you want to assign the list to?'']])
                        else Inr [])
                 else Inr []);
          sg3 = (if currentOperation = Some (JStr ''create_event'')
                    \<and> truthy (userPreferences c ''preferredCalendar'') then
                   collect
                     [template
                        [Inr ''Based on your activity, you might want to use calendar: '',
                         toStr (userPreferences c ''preferredCalendar'')]]
                 else Inr [])
      in (case collect [sg1, sg2, sg3] of
            Inl e \<Rightarrow> Inl e
          | Inr suggestions \<Rightarrow> Inr (concat suggestions),
          mem1))"

text \<open>
  \<open>getConversationContext\<close> and its helpers. \<open>substring\<close> is called on the content of an
  item without a check, so a content that is not a string makes the call throw.
\<close>

record contextSummary =
  cs_currentFocus :: "focus option"
  cs_recentActivity :: "(string \<times> nat \<times> string) list"
  cs_userPreferences :: "string \<rightharpoonup> jsval"
  cs_events :: "(string option \<times> jsval option \<times> jsval option) list"
  cs_lists :: "(string option \<times> jsval option) list"
  cs_items :: "(string option \<times> string) list"

definition summarizeInteraction :: "interaction \<Rightarrow> error + string" where
  "summarizeInteraction i =
     (if i_operation i = ''create_event'' then
        template [Inr (''Created event '' @ dq), toStr (field (i_params i) ''title''), Inr dq]
      else if i_operation i = ''create_list'' then
        template [Inr (''Created list '' @ dq), toStr (field (i_params i) ''name''), Inr dq]
      else if i_operation i = ''create_item'' then
        (case field (i_params i) ''content'' of
           None \<Rightarrow> Inr (''Added item '' @ dq @ ''undefined...'' @ dq)
         | Some JNull \<Rightarrow> Inr (''Added item '' @ dq @ ''undefined...'' @ dq)
         | Some (JStr c) \<Rightarrow> Inr (''Added item '' @ dq @ take 30 c @ ''...'' @ dq)
         | Some _ \<Rightarrow> Inl (JsError ''params.content?.substring is not a function''))
      else Inr (''Performed '' @ i_operation i))"

definition getRecentEntitySuggestions ::
  "sessionContext \<Rightarrow>
   error + ((string option \<times> jsval option \<times> jsval option) list
            \<times> (string option \<times> jsval option) list \<times> (string option \<times> string) list)" where
  "getRecentEntitySuggestions c =
     (case collect (map (\<lambda>i. case it_content i of
                                Some (JStr t) \<Rightarrow> Inr (it_id i, take 50 t @ ''...'')
                              | None \<Rightarrow>
                                  Inl (JsError
                                    ''Cannot read properties of undefined (reading 'substring')'')
                              | Some JNull \<Rightarrow>
                                  Inl (JsError
                                    ''Cannot read properties of null (reading 'substring')'')
                              | Some _ \<Rightarrow> Inl (JsError ''i.content.substring is not a function''))
                        (recentItems c)) of
        Inl e \<Rightarrow> Inl e
      | Inr items \<Rightarrow>
          Inr (map (\<lambda>e. (ev_id e, ev_title e, ev_startDate e)) (recentEvents c),
               map (\<lambda>l. (li_id l, li_name l)) (recentLists c),
               items))"

definition getConversationContext ::
  "memory \<Rightarrow> string \<Rightarrow> nat \<Rightarrow> nat \<Rightarrow> (error + contextSummary) \<times> memory" where
  "getConversationContext mem sessionId limit now =
     (let (s, mem1) = getSession mem sessionId now;
          recentInteractions = take limit (interactions s)
      in (case collect (map (\<lambda>i. case summarizeInteraction i of
                                    Inl e \<Rightarrow> Inl e
                                  | Inr sm \<Rightarrow> Inr (i_operation i, i_timestamp i, sm))
                            recentInteractions) of
            Inl e \<Rightarrow> (Inl e, mem1)
          | Inr activity \<Rightarrow>
              (case getRecentEntitySuggestions (sContext s) of
                 Inl e \<Rightarrow> (Inl e, mem1)
               | Inr (evs, lsts, items) \<Rightarrow>
                   (Inr \<lparr>cs_currentFocus = currentFocus (sContext s),
                         cs_recentActivity = activity,
                         cs_userPreferences = userPreferences (sContext s),
                         cs_events = evs, cs_lists = lsts, cs_items = items\<rparr>,
                    mem1))))"

section \<open>The server state\<close>

text \<open>
  \<open>pendingOperations\<close> is one map from string keys to entries. An entry stored under its
  operation id has no \<open>id\<close> field; the entry stored under the key \<open>last_operation\<close> (the
  alias) carries the id of the operation it stands for. The basic server (\<open>index.js\<close>)
  has the pending map, the counter and the database; the server with memory extends it.
\<close>

record pendingOp =
  p_id :: "string option"
  p_name :: string
  p_args :: "jsobj option"
  p_timestamp :: nat

record 'db server =
  pendingOperations :: "string \<rightharpoonup> pendingOp"
  operationCounter :: nat
  db :: 'db

record 'db memServer = "'db server" +
  memory :: memory

text \<open>
  What the server gets from outside: \<open>run\<close> is the effect of one of the fifteen database
  operations on arguments that may be undefined (it may change the database and then
  throw), \<open>stringify\<close> is \<open>JSON.stringify(args, null, 2)\<close> as a template literal shows
  it, and \<open>contextText\<close> is the text that \<open>handleGetContext\<close> lays out from the summary
  and the suggestions (it prints dates in the host's locale and throws when a value in
  the summary cannot be turned into a string).
\<close>

record 'db env =
  run :: "string \<Rightarrow> jsobj option \<Rightarrow> 'db \<Rightarrow> (error + string) \<times> 'db"
  stringify :: "jsobj option \<Rightarrow> string"
  contextText :: "contextSummary \<Rightarrow> string list \<Rightarrow> error + string"

definition warningSign :: string where
  "warningSign = [CHR 0xE2, CHR 0x9A, CHR 0xA0, CHR 0xEF, CHR 0xB8, CHR 0x8F]"

definition crossMark :: string where
  "crossMark = [CHR 0xE2, CHR 0x9D, CHR 0x8C]"

definition checkMark :: string where
  "checkMark = [CHR 0xE2, CHR 0x9C, CHR 0x85]"

definition lightBulb :: string where
  "lightBulb = [CHR 0xF0, CHR 0x9F, CHR 0x92, CHR 0xA1]"

definition bullet :: string where
  "bullet = [CHR 0xE2, CHR 0x80, CHR 0xA2]"

definition operationNames :: "string list" where
  "operationNames =
     [''create_event'', ''get_events'', ''update_event'', ''delete_event'',
      ''create_list'', ''get_lists'', ''update_list'', ''delete_list'',
      ''create_item'', ''get_items'', ''update_item'', ''delete_item'',
      ''assign_list_to_event'', ''unassign_list_from_event'',
      ''get_event_with_list_and_items'']"

definition executeOperation ::
  "'db env \<Rightarrow> string \<Rightarrow> jsobj option \<Rightarrow> 'db \<Rightarrow> (error + string) \<times> 'db" where
  "executeOperation env name args d =
     (if name \<in> set operationNames then run env name args d
      else (Inl (McpError MethodNotFound (''Unknown operation: '' @ name)), d))"

definition executeOperation_basic ::
  "'db env \<Rightarrow> string \<Rightarrow> jsobj option \<Rightarrow> 'db \<Rightarrow> (error + string) \<times> 'db" where
  "executeOperation_basic env name args d =
     (if name \<in> set operationNames then run env name args d
      else (Inl (McpError MethodNotFound (''Unknown tool: '' @ name)), d))"

definition isReadOperation :: "string \<Rightarrow> bool" where
  "isReadOperation operationName =
     (operationName \<in> set [''get_events'', ''get_lists'', ''get_items'',
                            ''get_event_with_list_and_items'', ''get_context''])"

definition isReadOperation_basic :: "string \<Rightarrow> bool" where
  "isReadOperation_basic operationName =
     (operationName \<in> set [''get_events'', ''get_lists'', ''get_items'',
                            ''get_event_with_list_and_items''])"

section \<open>Requesting a confirmation\<close>

definition generateConfirmationMessage ::
  "'db env \<Rightarrow> string \<Rightarrow> jsobj option \<Rightarrow> error + string" where
  "generateConfirmationMessage env operationName args =
     (let sub = (\<lambda>k. case argument args k of Inl e \<Rightarrow> Inl e | Inr v \<Rightarrow> toStr v);
          opt = (\<lambda>k pre post.
                   case argument args k of
                     Inl e \<Rightarrow> Inl e
                   | Inr v \<Rightarrow> if truthy v then template [Inr pre, toStr v, Inr post]
                             else Inr []);
          flag = (\<lambda>k shown.
                    case argument args k of
                      Inl e \<Rightarrow> Inl e
                    | Inr v \<Rightarrow> Inr (if truthy v then shown else []))
      in
      if operationName = ''create_event'' then
        template
          [Inr (''Create new event: '' @ dq), sub ''title'', Inr (dq @ '' from ''),
           sub ''startDate'', Inr '' to '', sub ''endDate'', opt ''location'' '' at '' []]
      else if operationName = ''update_event'' then
        template
          [Inr ''Update event with ID: '', sub ''eventId'',
           opt ''title'' (nl @ ''New title: '' @ dq) dq,
           opt ''startDate'' (nl @ ''New start: '') [],
           opt ''endDate'' (nl @ ''New end: '') []]
      else if operationName = ''delete_event'' then
        template
          [Inr ''DELETE event with ID: '', sub ''eventId'',
           Inr (nl @ warningSign @ ''  This action cannot be undone!'')]
      else if operationName = ''create_list'' then
        template
          [Inr (''Create new list: '' @ dq), sub ''name'', Inr dq,
           opt ''description'' '' - '' []]
      else if operationName = ''update_list'' then
        template
          [Inr ''Update list with ID: '', sub ''listId'',
           opt ''name'' (nl @ ''New name: '' @ dq) dq,
           opt ''description'' (nl @ ''New description: '' @ dq) dq]
      else if operationName = ''delete_list'' then
        template
          [Inr ''DELETE list with ID: '', sub ''listId'',
           flag ''deleteItems''
             (nl @ warningSign @ ''  This will also DELETE all items in the list!''),
           Inr (nl @ warningSign @ ''  This action cannot be undone!'')]
      else if operationName = ''create_item'' then
        template
          [Inr (''Create new item: '' @ dq), sub ''content'', Inr (dq @ '' in list ''),
           sub ''listId'']
      else if operationName = ''update_item'' then
        template
          [Inr ''Update item with ID: '', sub ''itemId'',
           opt ''content'' (nl @ ''New content: '' @ dq) dq]
      else if operationName = ''delete_item'' then
        template
          [Inr ''DELETE item with ID: '', sub ''itemId'',
           Inr (nl @ warningSign @ ''  This action cannot be undone!'')]
      else if operationName = ''assign_list_to_event'' then
        template
          [Inr ''Assign list '', sub ''listId'', Inr '' to event '', sub ''eventId'']
      else if operationName = ''unassign_list_from_event'' then
        template [Inr ''Remove list assignment from event '', sub ''eventId'']
      else
        Inr (''Execute operation: '' @ operationName @ '' with parameters: ''
             @ stringify env args))"

text \<open>
  The readings of the clock while one request is handled: when the operation id is
  formed, when the entry is stored, when the alias is stored, and when the memory records
  an interaction.
\<close>

record clock =
  idTime :: nat
  entryTime :: nat
  aliasTime :: nat
  recordTime :: nat

text \<open>
  \<open>requestConfirmation\<close> (the same in both servers): the counter is incremented, the
  operation is stored under the new id and again under the alias key, and only then the
  confirmation message is generated. If that throws, the two entries stay in the map.
\<close>

definition newOperationId :: "nat \<Rightarrow> nat \<Rightarrow> string" where
  "newOperationId counter now = ''op_'' @ dec counter @ ''_'' @ dec now"

definition requestConfirmation ::
  "'db env \<Rightarrow> clock \<Rightarrow> string \<Rightarrow> jsobj option \<Rightarrow> ('db, 'z) server_scheme
   \<Rightarrow> (error + string) \<times> ('db, 'z) server_scheme" where
  "requestConfirmation env now operationName args s =
     (let counter = operationCounter s + 1;
          operationId = newOperationId counter (idTime now);
          pending1 = (pendingOperations s)
            (operationId \<mapsto>
               \<lparr>p_id = None, p_name = operationName, p_args = args,
                p_timestamp = entryTime now\<rparr>);
          pending2 = pending1
            (''last_operation'' \<mapsto>
               \<lparr>p_id = Some operationId, p_name = operationName, p_args = args,
                p_timestamp = aliasTime now\<rparr>);
          s1 = s\<lparr>pendingOperations := pending2, operationCounter := counter\<rparr>
      in case generateConfirmationMessage env operationName args of
           Inl e \<Rightarrow> (Inl e, s1)
         | Inr confirmationMessage \<Rightarrow>
             (Inr (warningSign @ ''  CONFIRMATION REQUIRED'' @ nl @ nl @ confirmationMessage
                   @ nl @ nl @ ''Operation ID: '' @ operationId @ nl @ nl
                   @ ''To proceed, you can either:'' @ nl
                   @ ''1. Use the confirm_operation tool with operationId: '' @ dq
                   @ operationId @ dq @ '' and confirm: true/false'' @ nl
                   @ ''2. Simply reply with '' @ dq @ ''yes'' @ dq @ '', '' @ dq @ ''confirm''
                   @ dq @ '', '' @ dq @ ''proceed'' @ dq @ '' to confirm OR '' @ dq @ ''no''
                   @ dq @ '', '' @ dq @ ''cancel'' @ dq @ '', '' @ dq @ ''abort'' @ dq
                   @ '' to cancel''),
              s1))"

section \<open>Resolving a confirmation\<close>

text \<open>
  The free-text classification that both \<open>handleConfirmation\<close>s perform inline: the
  response is lowercased and trimmed, then tested against the confirm words and, only if
  none of them occurs, against the cancel words. \<open>None\<close> is the case in which the
  handler throws.
\<close>

definition classifyResponse :: "string list \<Rightarrow> string list \<Rightarrow> string \<Rightarrow> bool option" where
  "classifyResponse confirmWs cancelWs response =
     (let normalizedResponse = trim (toLowerCase response)
      in if list_ex (str_includes normalizedResponse) confirmWs then Some True
         else if list_ex (str_includes normalizedResponse) cancelWs then Some False
         else None)"

definition confirmWords :: "string list" where
  "confirmWords = [''yes'', ''confirm'', ''proceed'', ''ok'', ''y'', ''go'', ''continue'']"

definition cancelWords :: "string list" where
  "cancelWords = [''no'', ''cancel'', ''abort'', ''stop'', ''n'', ''decline'']"

definition confirmWords_basic :: "string list" where
  "confirmWords_basic =
     [''yes'', ''y'', ''confirm'', ''proceed'', ''ok'', ''okay'', ''continue'', ''go'', ''do it'']"

definition cancelWords_basic :: "string list" where
  "cancelWords_basic = [''no'', ''n'', ''cancel'', ''abort'', ''stop'', ''nope'', ''negative'']"

definition undefinedName :: error where
  "undefinedName = JsError ''Cannot read properties of undefined (reading 'name')''"

text \<open>
  \<open>executeConfirmation\<close> of the server with memory. The entry is deleted first; reading
  \<open>pendingOp.name\<close> of an entry that was not found throws a \<open>TypeError\<close>. An operation
  that throws leaves its changes to the database in place and records nothing.
\<close>

definition executeConfirmation ::
  "'db env \<Rightarrow> nat \<Rightarrow> string option \<Rightarrow> pendingOp option \<Rightarrow> bool \<Rightarrow> 'db memServer
   \<Rightarrow> (error + string) \<times> 'db memServer" where
  "executeConfirmation env now operationId pendingOp shouldConfirm s =
     (let s1 = (case operationId of
                  None \<Rightarrow> s
                | Some i \<Rightarrow> s\<lparr>pendingOperations := (pendingOperations s)(i := None)\<rparr>)
      in case pendingOp of
           None \<Rightarrow> (Inl undefinedName, s1)
         | Some p \<Rightarrow>
             if \<not> shouldConfirm then
               (Inr (crossMark @ '' Operation cancelled: '' @ p_name p), s1)
             else
               (case executeOperation env (p_name p) (p_args p) (db s1) of
                  (Inl e, d) \<Rightarrow> (Inl e, s1\<lparr>db := d\<rparr>)
                | (Inr text, d) \<Rightarrow>
                    (case addInteraction_call (memory s1) ''default'' (p_name p) (p_args p)
                            (Content text) now of
                       (Some e, mem1) \<Rightarrow> (Inl e, s1\<lparr>db := d, memory := mem1\<rparr>)
                     | (None, mem1) \<Rightarrow>
                         (Inr (checkMark @ '' Operation confirmed and executed:'' @ nl @ nl
                               @ text),
                          s1\<lparr>db := d, memory := mem1\<rparr>))))"

definition executeConfirmation_basic ::
  "'db env \<Rightarrow> string option \<Rightarrow> pendingOp option \<Rightarrow> bool \<Rightarrow> ('db, 'z) server_scheme
   \<Rightarrow> (error + string) \<times> ('db, 'z) server_scheme" where
  "executeConfirmation_basic env operationId pendingOp shouldConfirm s =
     (let s1 = (case operationId of
                  None \<Rightarrow> s
                | Some i \<Rightarrow> s\<lparr>pendingOperations := (pendingOperations s)(i := None)\<rparr>)
      in case pendingOp of
           None \<Rightarrow> (Inl undefinedName, s1)
         | Some p \<Rightarrow>
             if \<not> shouldConfirm then
               (Inr (crossMark @ '' Operation cancelled: '' @ p_name p), s1)
             else
               (case executeOperation_basic env (p_name p) (p_args p) (db s1) of
                  (Inl e, d) \<Rightarrow> (Inl e, s1\<lparr>db := d\<rparr>)
                | (Inr text, d) \<Rightarrow>
                    (Inr (checkMark @ '' Operation confirmed and executed:'' @ nl @ nl @ text),
                     s1\<lparr>db := d\<rparr>)))"

text \<open>The entry that the alias stands for: \<open>pendingOperations.get(lastOp.id)\<close>.\<close>

definition aliasTarget :: "(string \<rightharpoonup> pendingOp) \<Rightarrow> pendingOp \<Rightarrow> pendingOp option" where
  "aliasTarget pending lastOp =
     (case p_id lastOp of None \<Rightarrow> None | Some i \<Rightarrow> pending i)"

text \<open>
  \<open>handleConfirmation\<close> of the server with memory: free text without an id, then an
  explicit id, then a boolean without an id; the alias is never deleted.
\<close>

definition handleConfirmation ::
  "'db env \<Rightarrow> nat \<Rightarrow> jsobj \<Rightarrow> 'db memServer \<Rightarrow> (error + string) \<times> 'db memServer" where
  "handleConfirmation env now args s =
     (let operationId = field args ''operationId'';
          confirm = field args ''confirm'';
          response = field args ''response''
      in
      if truthy response \<and> \<not> truthy operationId then
        (case pendingOperations s ''last_operation'' of
           None \<Rightarrow>
             (Inl (McpError InvalidRequest
                ''No pending operation found. Please make a request first.''), s)
         | Some lastOp \<Rightarrow>
             (case response of
                Some (JStr r) \<Rightarrow>
                  (case classifyResponse confirmWords cancelWords r of
                     None \<Rightarrow>
                       (Inl (McpError InvalidRequest
                          (''Please respond with '' @ dq @ ''yes'' @ dq @ ''/'' @ dq @ ''confirm''
                           @ dq @ '' to proceed or '' @ dq @ ''no'' @ dq @ ''/'' @ dq
                           @ ''cancel'' @ dq @ '' to abort.'')), s)
                   | Some shouldConfirm \<Rightarrow>
                       executeConfirmation env now (p_id lastOp)
                         (aliasTarget (pendingOperations s) lastOp) shouldConfirm s)
              | _ \<Rightarrow> (Inl (JsError ''response.toLowerCase is not a function''), s)))
      else if truthy operationId then
        (case operationId of
           Some (JStr i) \<Rightarrow>
             (case pendingOperations s i of
                None \<Rightarrow>
                  (Inl (McpError InvalidRequest (''No pending operation found with ID: '' @ i)), s)
              | Some p \<Rightarrow> executeConfirmation env now (Some i) (Some p) (truthy confirm) s)
         | _ \<Rightarrow>
             (case toStr operationId of
                Inl e \<Rightarrow> (Inl e, s)
              | Inr shown \<Rightarrow>
                  (Inl (McpError InvalidRequest
                     (''No pending operation found with ID: '' @ shown)), s)))
      else
        (case confirm of
           Some (JBool b) \<Rightarrow>
             (case pendingOperations s ''last_operation'' of
                None \<Rightarrow>
                  (Inl (McpError InvalidRequest
                     ''No pending operation found. Please make a request first.''), s)
              | Some lastOp \<Rightarrow>
                  executeConfirmation env now (p_id lastOp)
                    (aliasTarget (pendingOperations s) lastOp) b s)
         | _ \<Rightarrow>
             (Inl (McpError InvalidRequest
                ''Please provide either operationId + confirm, or a natural language response.''),
              s)))"

text \<open>
  \<open>handleConfirmation\<close> of the basic server: the free-text path deletes the alias before
  it executes; every other request needs an explicit id.
\<close>

definition handleConfirmation_basic ::
  "'db env \<Rightarrow> jsobj \<Rightarrow> ('db, 'z) server_scheme \<Rightarrow> (error + string) \<times> ('db, 'z) server_scheme" where
  "handleConfirmation_basic env args s =
     (let operationId = field args ''operationId'';
          confirm = field args ''confirm'';
          response = field args ''response''
      in
      if truthy response \<and> \<not> truthy operationId then
        (case pendingOperations s ''last_operation'' of
           None \<Rightarrow>
             (Inl (McpError InvalidRequest
                (''No pending operation found. Please specify an operationId or ensure ''
                 @ ''there is a recent operation awaiting confirmation.'')), s)
         | Some lastOp \<Rightarrow>
             (case response of
                Some (JStr r) \<Rightarrow>
                  (case classifyResponse confirmWords_basic cancelWords_basic r of
                     None \<Rightarrow>
                       (Inl (McpError InvalidRequest
                          (''Please respond with a clear confirmation like '' @ dq @ ''yes'' @ dq
                           @ '', '' @ dq @ ''confirm'' @ dq @ '', '' @ dq @ ''proceed'' @ dq
                           @ '' OR '' @ dq @ ''no'' @ dq @ '', '' @ dq @ ''cancel'' @ dq @ '', ''
                           @ dq @ ''abort'' @ dq)), s)
                   | Some shouldConfirm \<Rightarrow>
                       executeConfirmation_basic env (p_id lastOp)
                         (aliasTarget (pendingOperations s) lastOp) shouldConfirm
                         (s\<lparr>pendingOperations :=
                              (pendingOperations s)(''last_operation'' := None)\<rparr>))
              | _ \<Rightarrow> (Inl (JsError ''response.toLowerCase is not a function''), s)))
      else if \<not> truthy operationId then
        (Inl (McpError InvalidRequest ''Either operationId or response must be provided''), s)
      else
        (case operationId of
           Some (JStr i) \<Rightarrow>
             (case pendingOperations s i of
                None \<Rightarrow>
                  (Inl (McpError InvalidRequest
                     (''Operation '' @ i @ '' not found or has expired'')), s)
              | Some p \<Rightarrow> executeConfirmation_basic env (Some i) (Some p) (truthy confirm) s)
         | _ \<Rightarrow>
             (case toStr operationId of
                Inl e \<Rightarrow> (Inl e, s)
              | Inr shown \<Rightarrow>
                  (Inl (McpError InvalidRequest
                     (''Operation '' @ shown @ '' not found or has expired'')), s))))"

text \<open>
  \<open>cleanupExpiredOperations\<close> (basic server, run every five minutes): every entry of the
  map, whatever its key, is deleted when its age exceeds five minutes.
\<close>

definition expireTime :: int where
  "expireTime = 5 * 60 * 1000"

definition cleanupExpiredOperations ::
  "nat \<Rightarrow> ('db, 'z) server_scheme \<Rightarrow> ('db, 'z) server_scheme" where
  "cleanupExpiredOperations now s =
     s\<lparr>pendingOperations :=
         (\<lambda>operationId.
            case pendingOperations s operationId of
              None \<Rightarrow> None
            | Some operation \<Rightarrow>
                if int now - int (p_timestamp operation) > expireTime then None
                else Some operation)\<rparr>"

section \<open>The request handler of the server with memory\<close>

text \<open>
  A tool call names a tool and carries its arguments; whatever else the request holds
  (headers, connection data) is the record's extension.
\<close>

record request =
  r_name :: string
  r_arguments :: "jsobj option"

definition getSessionId :: "'z request_scheme \<Rightarrow> string" where
  "getSessionId request = ''default''"

definition handleGetContext ::
  "'db env \<Rightarrow> nat \<Rightarrow> string \<Rightarrow> jsobj option \<Rightarrow> memory \<Rightarrow> (error + string) \<times> memory" where
  "handleGetContext env now sessionId args mem =
     (case getConversationContext mem sessionId 5 now of
        (Inl e, mem1) \<Rightarrow> (Inl e, mem1)
      | (Inr summary, mem1) \<Rightarrow>
          (case args of
             None \<Rightarrow> (Inl (undefinedProperty ''operation''), mem1)
           | Some a \<Rightarrow>
               if truthy (field a ''operation'') \<and> truthy (field a ''params'') then
                 (case getContextualSuggestions mem1 sessionId (field a ''operation'')
                         (field a ''params'') now of
                    (Inl e, mem2) \<Rightarrow> (Inl e, mem2)
                  | (Inr suggestions, mem2) \<Rightarrow>
                      (contextText env summary suggestions, mem2))
               else (contextText env summary [], mem1)))"

definition enhanceResultWithContext ::
  "memory \<Rightarrow> string \<Rightarrow> string \<Rightarrow> jsobj option \<Rightarrow> string \<Rightarrow> nat
   \<Rightarrow> (error + string) \<times> memory" where
  "enhanceResultWithContext mem sessionId operation params text now =
     (case getContextualSuggestions mem sessionId (Some (JStr operation))
             (map_option JObj params) now of
        (Inl e, mem1) \<Rightarrow> (Inl e, mem1)
      | (Inr suggestions, mem1) \<Rightarrow>
          if suggestions = [] then (Inr text, mem1)
          else (Inr (text @ nl @ nl @ lightBulb @ '' **Contextual Suggestions:**'' @ nl
                     @ join nl (map (\<lambda>sg. bullet @ '' '' @ sg) suggestions)), mem1))"

text \<open>
  The body of the handler's \<open>try\<close> block. \<open>handleConfirmation\<close> destructures its
  arguments first, which throws when they are undefined.
\<close>

definition undefinedArguments :: error where
  "undefinedArguments =
     JsError ''Cannot destructure property 'operationId' of 'args' as it is undefined.''"

definition callToolBody ::
  "'db env \<Rightarrow> clock \<Rightarrow> string \<Rightarrow> string \<Rightarrow> jsobj option \<Rightarrow> 'db memServer
   \<Rightarrow> (error + string) \<times> 'db memServer" where
  "callToolBody env now sessionId name args s =
     (if name = ''get_context'' then
        (case handleGetContext env (recordTime now) sessionId args (memory s) of
           (r, mem1) \<Rightarrow> (r, s\<lparr>memory := mem1\<rparr>))
      else if name = ''confirm_operation'' then
        (case args of
           None \<Rightarrow> (Inl undefinedArguments, s)
         | Some a \<Rightarrow>
             (case handleConfirmation env (recordTime now) a s of
                (Inl e, s1) \<Rightarrow> (Inl e, s1)
              | (Inr text, s1) \<Rightarrow>
                  (Inr text,
                   s1\<lparr>memory := addInteraction (memory s1) sessionId ''confirm_operation'' a
                                    (Content text) (recordTime now)\<rparr>)))
      else if isReadOperation name then
        (case executeOperation env name args (db s) of
           (Inl e, d) \<Rightarrow> (Inl e, s\<lparr>db := d\<rparr>)
         | (Inr text, d) \<Rightarrow>
             (case addInteraction_call (memory s) sessionId name args (Content text)
                     (recordTime now) of
                (Some e, mem1) \<Rightarrow> (Inl e, s\<lparr>db := d, memory := mem1\<rparr>)
              | (None, mem1) \<Rightarrow>
                  (case enhanceResultWithContext mem1 sessionId name args text
                          (recordTime now) of
                     (r, mem2) \<Rightarrow> (r, s\<lparr>db := d, memory := mem2\<rparr>))))
      else requestConfirmation env now name args s)"

text \<open>
  The handler: an error of the body is recorded in memory and thrown again, wrapped as an
  \<open>InternalError\<close> unless it is an \<open>McpError\<close> already. When the recording itself throws,
  that error leaves the handler as it is.
\<close>

definition callTool ::
  "'db env \<Rightarrow> clock \<Rightarrow> 'z request_scheme \<Rightarrow> 'db memServer
   \<Rightarrow> (error + string) \<times> 'db memServer" where
  "callTool env now request s =
     (let name = r_name request;
          args = r_arguments request;
          sessionId = getSessionId request
      in case callToolBody env now sessionId name args s of
           (Inr text, s1) \<Rightarrow> (Inr text, s1)
         | (Inl e, s1) \<Rightarrow>
             (case addInteraction_call (memory s1) sessionId name args
                     (ErrorResult (error_message e)) (recordTime now) of
                (Some e2, mem1) \<Rightarrow> (Inl e2, s1\<lparr>memory := mem1\<rparr>)
              | (None, mem1) \<Rightarrow>
                  ((case e of
                      McpError c m \<Rightarrow> Inl e
                    | JsError m \<Rightarrow>
                        Inl (McpError InternalError
                               (''Error executing '' @ name @ '': '' @ m))),
                   s1\<lparr>memory := mem1\<rparr>)))"

definition newServer :: "'db \<Rightarrow> 'db memServer" where
  "newServer d =
     \<lparr>pendingOperations = Map.empty, operationCounter = 0, db = d, memory = newMemory\<rparr>"

section \<open>Specification-level notions and a sample server\<close>

text \<open>
  The classifier as the specification words it: the normalised text is matched by
  substring containment against the affirmative words first and the negative words second.
\<close>

definition classify_spec :: "string set \<Rightarrow> string set \<Rightarrow> string \<Rightarrow> bool option" where
  "classify_spec affirmative negative text =
     (if \<exists>w\<in>affirmative. sublist w text then Some True
      else if \<exists>w\<in>negative. sublist w text then Some False
      else None)"

text \<open>
  Every key of the pending map is the alias key or an operation id that was generated
  from a counter value not above the current one.
\<close>

definition pendingKeysOk :: "('db, 'z) server_scheme \<Rightarrow> bool" where
  "pendingKeysOk s =
     (\<forall>k\<in>dom (pendingOperations s).
        k = ''last_operation'' \<or> (\<exists>c t. c \<le> operationCounter s \<and> k = newOperationId c t))"


text \<open>
  A sample environment whose database is the journal of the operations that were run, and
  the server that has been asked at time 1000 to create a list and awaits the answer.
\<close>

definition journalEnv :: "(string \<times> jsobj option) list env" where
  "journalEnv =
     \<lparr>run = (\<lambda>name args d. (Inr (''done: '' @ name), d @ [(name, args)])),
      stringify = (\<lambda>args. ''{}''),
      contextText = (\<lambda>summary suggestions. Inr ''context'')\<rparr>"

definition groceries :: jsobj where
  "groceries = [(''name'', JStr ''Groceries'')]"

definition createListRequest :: request where
  "createListRequest = \<lparr>r_name = ''create_list'', r_arguments = Some groceries\<rparr>"

text \<open>A clock that shows the same time throughout a request.\<close>

definition steady :: "nat \<Rightarrow> clock" where
  "steady t = \<lparr>idTime = t, entryTime = t, aliasTime = t, recordTime = t\<rparr>"

definition awaiting :: "(string \<times> jsobj option) list memServer" where
  "awaiting =
     \<lparr>pendingOperations =
        [''op_1_1000'' \<mapsto>
           \<lparr>p_id = None, p_name = ''create_list'', p_args = Some groceries, p_timestamp = 1000\<rparr>,
         ''last_operation'' \<mapsto>
           \<lparr>p_id = Some ''op_1_1000'', p_name = ''create_list'', p_args = Some groceries,
            p_timestamp = 1000\<rparr>],
      operationCounter = 1, db = [], memory = newMemory\<rparr>"

text \<open>
  Two memories that differ at most in the session \<open>sid\<close>: the bound is the same and
  every other session is the same.
\<close>

definition touchesOnly :: "string \<Rightarrow> memory \<Rightarrow> memory \<Rightarrow> bool" where
  "touchesOnly sid m m' =
     (maxEntries m' = maxEntries m \<and> (\<forall>k. k \<noteq> sid \<longrightarrow> sessions m' k = sessions m k))"




text \<open>A request that carries, besides the tool call, the name of its caller.\<close>

definition aliceRequest :: "string request_scheme" where
  "aliceRequest = \<lparr>r_name = ''create_list'', r_arguments = Some groceries, \<dots> = ''alice''\<rparr>"

text \<open>A step that adds no key to the pending map and keeps the counter.\<close>

definition keysShrink :: "'db memServer \<Rightarrow> 'db memServer \<Rightarrow> bool" where
  "keysShrink s s' =
     (dom (pendingOperations s') \<subseteq> dom (pendingOperations s) \<and>
      operationCounter s' = operationCounter s)"


text \<open>
  The waiting server after the list creation has been confirmed, at time 2000, by its
  explicit id, and three ways of confirming it a second time.
\<close>

definition byIdArgs :: jsobj where
  "byIdArgs = [(''operationId'', JStr ''op_1_1000''), (''confirm'', JBool True)]"

definition byFlagArgs :: jsobj where
  "byFlagArgs = [(''confirm'', JBool True)]"

definition byTextArgs :: jsobj where
  "byTextArgs = [(''response'', JStr ''yes'')]"

definition confirmByIdRequest :: request where
  "confirmByIdRequest = \<lparr>r_name = ''confirm_operation'', r_arguments = Some byIdArgs\<rparr>"

definition confirmByFlagRequest :: request where
  "confirmByFlagRequest = \<lparr>r_name = ''confirm_operation'', r_arguments = Some byFlagArgs\<rparr>"

definition confirmByTextRequest :: request where
  "confirmByTextRequest = \<lparr>r_name = ''confirm_operation'', r_arguments = Some byTextArgs\<rparr>"

definition confirmedOnce :: "(string \<times> jsobj option) list memServer" where
  "confirmedOnce = snd (callTool journalEnv (steady 2000) confirmByIdRequest awaiting)"

section \<open>Strings and the classifier\<close>

lemma str_includes_sublist: "str_includes s w \<longleftrightarrow> sublist w s"
  by (induction s) (auto simp: sublist_Cons_right)

lemma list_ex_includes: "list_ex (str_includes s) ws \<longleftrightarrow> (\<exists>w\<in>set ws. sublist w s)"
  by (simp add: list_ex_iff str_includes_sublist)

lemma str_includes_single: "str_includes s [c] \<longleftrightarrow> c \<in> set s"
  by (induction s) auto

lemma classifyResponse_spec:
  "classifyResponse cw nw r = classify_spec (set cw) (set nw) (trim (toLowerCase r))"
  by (simp add: classifyResponse_def classify_spec_def list_ex_includes Let_def)

lemma classifyResponse_affirmative:
  "list_ex (str_includes (trim (toLowerCase r))) cw \<Longrightarrow> classifyResponse cw nw r = Some True"
  by (simp add: classifyResponse_def)

lemmas eval_text = trim_def toLowerCase_def toLowerChar_def isWhiteSpace_def

lemma awaiting_alias:
  "pendingOperations awaiting ''last_operation'' =
     Some \<lparr>p_id = Some ''op_1_1000'', p_name = ''create_list'', p_args = Some groceries,
           p_timestamp = 1000\<rparr>"
  by (simp add: awaiting_def)

lemma awaiting_entry:
  "pendingOperations awaiting ''op_1_1000'' =
     Some \<lparr>p_id = None, p_name = ''create_list'', p_args = Some groceries, p_timestamp = 1000\<rparr>"
  by (simp add: awaiting_def)

section \<open>The tie-break of the classifier\<close>

text \<open>
  Claim C7. A free-text confirmation whose normalised text contains both a confirm word
  and a cancel word is classified as affirmative: the handler passes \<open>true\<close> to
  \<open>executeConfirmation\<close>, because the confirm words are tested first.
\<close>

theorem C7_affirmative_first:
  assumes resp: "field args ''response'' = Some (JStr r)"
    and noid: "\<not> truthy (field args ''operationId'')"
    and al: "pendingOperations s ''last_operation'' = Some lastOp"
    and aff: "list_ex (str_includes (trim (toLowerCase r))) confirmWords"
    and neg: "list_ex (str_includes (trim (toLowerCase r))) cancelWords"
  shows "classifyResponse confirmWords cancelWords r = Some True \<and>
         handleConfirmation env now args s =
           executeConfirmation env now (p_id lastOp)
             (aliasTarget (pendingOperations s) lastOp) True s"
proof -
  have "r \<noteq> []"
    using aff by (auto simp: eval_text confirmWords_def)
  moreover have "classifyResponse confirmWords cancelWords r = Some True"
    using aff by (rule classifyResponse_affirmative)
  ultimately show ?thesis
    using resp noid al by (simp add: handleConfirmation_def)
qed

theorem C7_affirmative_first_witness:
  "classifyResponse confirmWords cancelWords ''yes, but actually no'' = Some True \<and>
   handleConfirmation journalEnv 2000 [(''response'', JStr ''yes, but actually no'')] awaiting =
     executeConfirmation journalEnv 2000 (Some ''op_1_1000'')
       (Some \<lparr>p_id = None, p_name = ''create_list'', p_args = Some groceries, p_timestamp = 1000\<rparr>)
       True awaiting"
proof -
  have b: "list_ex (str_includes (trim (toLowerCase ''yes, but actually no''))) confirmWords"
    by (simp add: eval_text confirmWords_def)
  have c: "list_ex (str_includes (trim (toLowerCase ''yes, but actually no''))) cancelWords"
    by (simp add: eval_text cancelWords_def)
  have d: "field [(''response'', JStr ''yes, but actually no'')] ''response'' =
      Some (JStr ''yes, but actually no'')"
    by (simp add: field_def)
  have e: "\<not> truthy (field [(''response'', JStr ''yes, but actually no'')] ''operationId'')"
    by (simp add: field_def)
  show ?thesis
    using C7_affirmative_first [OF d e awaiting_alias b c, of journalEnv 2000]
    by (simp add: aliasTarget_def awaiting_entry)
qed

lemma executeConfirmation_db:
  "db (snd (executeConfirmation env now k (Some p) True s)) =
   snd (executeOperation env (p_name p) (p_args p) (db s))"
  by (cases k; simp add: executeConfirmation_def Let_def split: prod.splits sum.splits option.splits)

lemma executeConfirmation_basic_db:
  "db (snd (executeConfirmation_basic env k (Some p) True s)) =
   snd (executeOperation_basic env (p_name p) (p_args p) (db s))"
  by (cases k; simp add: executeConfirmation_basic_def Let_def split: prod.splits sum.splits)

lemma y_confirmWords: "CHR ''y'' \<in> set t \<Longrightarrow> list_ex (str_includes t) confirmWords"
  by (simp add: confirmWords_def str_includes_single)

lemma y_confirmWords_basic: "CHR ''y'' \<in> set t \<Longrightarrow> list_ex (str_includes t) confirmWords_basic"
  by (simp add: confirmWords_basic_def str_includes_single)

section \<open>The one-letter confirm word\<close>

text \<open>
  Claim C5. A free-text confirmation whose lowercased, trimmed response contains the
  letter \<open>y\<close> anywhere is classified as affirmative by both servers, whatever else the
  text says, and the pending operation that the alias stands for is executed: the
  database afterwards is the one that \<open>executeOperation\<close> leaves for the stored name and
  arguments.
\<close>

theorem C5_letter_y:
  assumes resp: "field args ''response'' = Some (JStr r)"
    and noid: "\<not> truthy (field args ''operationId'')"
    and y: "CHR ''y'' \<in> set (trim (toLowerCase r))"
    and al: "pendingOperations s ''last_operation'' = Some lastOp"
    and tgt: "p_id lastOp = Some i"
    and entry: "pendingOperations s i = Some p"
  shows "classifyResponse confirmWords cancelWords r = Some True \<and>
         classifyResponse confirmWords_basic cancelWords_basic r = Some True \<and>
         handleConfirmation env now args s =
           executeConfirmation env now (Some i) (Some p) True s \<and>
         db (snd (handleConfirmation env now args s)) =
           snd (executeOperation env (p_name p) (p_args p) (db s)) \<and>
         handleConfirmation_basic env args s =
           executeConfirmation_basic env (Some i) (Some p) True
             (s\<lparr>pendingOperations := (pendingOperations s)(''last_operation'' := None)\<rparr>) \<and>
         db (snd (handleConfirmation_basic env args s)) =
           snd (executeOperation_basic env (p_name p) (p_args p) (db s))"
proof -
  have ne: "r \<noteq> []"
    using y by (auto simp: eval_text)
  have c1: "classifyResponse confirmWords cancelWords r = Some True"
    using y by (intro classifyResponse_affirmative y_confirmWords)
  have c2: "classifyResponse confirmWords_basic cancelWords_basic r = Some True"
    using y by (intro classifyResponse_affirmative y_confirmWords_basic)
  have t: "aliasTarget (pendingOperations s) lastOp = Some p"
    using tgt entry by (simp add: aliasTarget_def)
  have h1: "handleConfirmation env now args s =
      executeConfirmation env now (Some i) (Some p) True s"
    using resp noid al ne c1 t tgt by (simp add: handleConfirmation_def)
  have h2: "handleConfirmation_basic env args s =
      executeConfirmation_basic env (Some i) (Some p) True
        (s\<lparr>pendingOperations := (pendingOperations s)(''last_operation'' := None)\<rparr>)"
    using resp noid al ne c2 t tgt by (simp add: handleConfirmation_basic_def)
  show ?thesis
    using c1 c2 h1 h2 by (simp add: executeConfirmation_db executeConfirmation_basic_db)
qed

theorem C5_letter_y_witness:
  "classifyResponse confirmWords cancelWords ''Definitely not'' = Some True \<and>
   db (snd (handleConfirmation journalEnv 2000 [(''response'', JStr ''Definitely not'')] awaiting)) =
     [(''create_list'', Some groceries)] \<and>
   db (snd (handleConfirmation_basic journalEnv [(''response'', JStr ''Definitely not'')] awaiting)) =
     [(''create_list'', Some groceries)]"
proof -
  have a: "field [(''response'', JStr ''Definitely not'')] ''response'' = Some (JStr ''Definitely not'')"
    by (simp add: field_def)
  have b: "\<not> truthy (field [(''response'', JStr ''Definitely not'')] ''operationId'')"
    by (simp add: field_def)
  have c: "CHR ''y'' \<in> set (trim (toLowerCase ''Definitely not''))"
    by (simp add: eval_text)
  have d: "p_id \<lparr>p_id = Some ''op_1_1000'', p_name = ''create_list'', p_args = Some groceries,
           p_timestamp = 1000\<rparr> = Some ''op_1_1000''"
    by simp
  have e: "snd (executeOperation journalEnv ''create_list'' (Some groceries) (db awaiting)) =
      [(''create_list'', Some groceries)]"
    by (simp add: executeOperation_def operationNames_def journalEnv_def awaiting_def)
  have f: "snd (executeOperation_basic journalEnv ''create_list'' (Some groceries) (db awaiting)) =
      [(''create_list'', Some groceries)]"
    by (simp add: executeOperation_basic_def operationNames_def journalEnv_def awaiting_def)
  note h = C5_letter_y [OF a b c awaiting_alias d awaiting_entry, of journalEnv 2000]
  have h1: "classifyResponse confirmWords cancelWords ''Definitely not'' = Some True"
    using h by blast
  have h2: "db (snd (handleConfirmation journalEnv 2000
                      [(''response'', JStr ''Definitely not'')] awaiting)) =
      snd (executeOperation journalEnv ''create_list'' (Some groceries) (db awaiting))"
    using h [THEN conjunct2, THEN conjunct2, THEN conjunct2, THEN conjunct1] by simp
  have h3: "db (snd (handleConfirmation_basic journalEnv
                      [(''response'', JStr ''Definitely not'')] awaiting)) =
      snd (executeOperation_basic journalEnv ''create_list'' (Some groceries) (db awaiting))"
    using h [THEN conjunct2, THEN conjunct2, THEN conjunct2, THEN conjunct2, THEN conjunct2]
    by simp
  show ?thesis
    using h1 h2 h3 e f by simp
qed


section \<open>The word lists\<close>

text \<open>
  Claim C4 as stated fails on the server with memory, which does not use the nine and
  seven words of the claim: \<open>do it\<close> is one of the nine, yet the response \<open>do it\<close> is
  classified as neither and refused.
\<close>

theorem C4_counterexample:
  "list_ex (str_includes (trim (toLowerCase ''do it'')))
     [''yes'', ''y'', ''confirm'', ''proceed'', ''ok'', ''okay'', ''continue'', ''go'', ''do it''] \<and>
   classifyResponse confirmWords cancelWords ''do it'' = None \<and>
   handleConfirmation journalEnv 2000 [(''response'', JStr ''do it'')] awaiting =
     (Inl (McpError InvalidRequest
        (''Please respond with '' @ dq @ ''yes'' @ dq @ ''/'' @ dq @ ''confirm''
         @ dq @ '' to proceed or '' @ dq @ ''no'' @ dq @ ''/'' @ dq
         @ ''cancel'' @ dq @ '' to abort.'')), awaiting)"
proof -
  have c: "classifyResponse confirmWords cancelWords ''do it'' = None"
    by (simp add: classifyResponse_def confirmWords_def cancelWords_def eval_text)
  have "list_ex (str_includes (trim (toLowerCase ''do it'')))
     [''yes'', ''y'', ''confirm'', ''proceed'', ''ok'', ''okay'', ''continue'', ''go'', ''do it'']"
    by (simp add: eval_text)
  then show ?thesis
    using c awaiting_alias by (simp add: handleConfirmation_def field_def)
qed

text \<open>
  Claim C4, amended. A free-text confirmation is lowercased, trimmed and classified by
  substring containment, the affirmative words first. The basic server uses exactly the
  words yes, y, confirm, proceed, ok, okay, continue, go, do it and no, n, cancel, abort,
  stop, nope, negative; the server with memory uses yes, confirm, proceed, ok, y, go,
  continue and no, cancel, abort, stop, n, decline. In both, a text that matches neither
  list fails with \<open>InvalidRequest\<close> and leaves the state as it was.
\<close>

theorem C4_word_lists:
  assumes resp: "field args ''response'' = Some (JStr r)"
    and ne: "r \<noteq> []"
    and noid: "\<not> truthy (field args ''operationId'')"
    and al: "pendingOperations s ''last_operation'' = Some lastOp"
  shows "classifyResponse confirmWords_basic cancelWords_basic r =
           classify_spec
             {''yes'', ''y'', ''confirm'', ''proceed'', ''ok'', ''okay'', ''continue'', ''go'',
              ''do it''}
             {''no'', ''n'', ''cancel'', ''abort'', ''stop'', ''nope'', ''negative''}
             (trim (toLowerCase r)) \<and>
         classifyResponse confirmWords cancelWords r =
           classify_spec
             {''yes'', ''confirm'', ''proceed'', ''ok'', ''y'', ''go'', ''continue''}
             {''no'', ''cancel'', ''abort'', ''stop'', ''n'', ''decline''}
             (trim (toLowerCase r)) \<and>
         (classifyResponse confirmWords_basic cancelWords_basic r = None \<longrightarrow>
            (\<exists>m. handleConfirmation_basic env args s = (Inl (McpError InvalidRequest m), s))) \<and>
         (classifyResponse confirmWords cancelWords r = None \<longrightarrow>
            (\<exists>m. handleConfirmation env now args s = (Inl (McpError InvalidRequest m), s)))"
proof -
  have b: "classifyResponse confirmWords_basic cancelWords_basic r =
           classify_spec
             {''yes'', ''y'', ''confirm'', ''proceed'', ''ok'', ''okay'', ''continue'', ''go'',
              ''do it''}
             {''no'', ''n'', ''cancel'', ''abort'', ''stop'', ''nope'', ''negative''}
             (trim (toLowerCase r))"
    unfolding classifyResponse_spec by (simp add: confirmWords_basic_def cancelWords_basic_def)
  have m: "classifyResponse confirmWords cancelWords r =
           classify_spec
             {''yes'', ''confirm'', ''proceed'', ''ok'', ''y'', ''go'', ''continue''}
             {''no'', ''cancel'', ''abort'', ''stop'', ''n'', ''decline''}
             (trim (toLowerCase r))"
    unfolding classifyResponse_spec by (simp add: confirmWords_def cancelWords_def)
  have hb: "classifyResponse confirmWords_basic cancelWords_basic r = None \<longrightarrow>
            (\<exists>m. handleConfirmation_basic env args s = (Inl (McpError InvalidRequest m), s))"
    using resp ne noid al by (simp add: handleConfirmation_basic_def)
  have hm: "classifyResponse confirmWords cancelWords r = None \<longrightarrow>
            (\<exists>m. handleConfirmation env now args s = (Inl (McpError InvalidRequest m), s))"
    using resp ne noid al by (simp add: handleConfirmation_def)
  show ?thesis
    using b m hb hm by blast
qed

theorem C4_word_lists_witness:
  "(\<exists>m. handleConfirmation_basic journalEnv [(''response'', JStr ''sure'')] awaiting =
          (Inl (McpError InvalidRequest m), awaiting)) \<and>
   (\<exists>m. handleConfirmation journalEnv 2000 [(''response'', JStr ''sure'')] awaiting =
          (Inl (McpError InvalidRequest m), awaiting))"
proof -
  have a: "field [(''response'', JStr ''sure'')] ''response'' = Some (JStr ''sure'')"
    by (simp add: field_def)
  have b: "''sure'' \<noteq> []"
    by simp
  have c: "\<not> truthy (field [(''response'', JStr ''sure'')] ''operationId'')"
    by (simp add: field_def)
  have d: "classifyResponse confirmWords_basic cancelWords_basic ''sure'' = None"
    by (simp add: classifyResponse_def confirmWords_basic_def cancelWords_basic_def eval_text)
  have e: "classifyResponse confirmWords cancelWords ''sure'' = None"
    by (simp add: classifyResponse_def confirmWords_def cancelWords_def eval_text)
  show ?thesis
    using C4_word_lists [OF a b c awaiting_alias, of journalEnv 2000] d e by blast
qed

section \<open>What a resolved confirmation removes\<close>

lemma executeConfirmation_pending:
  "pendingOperations (snd (executeConfirmation env now (Some i) po b s)) =
   (pendingOperations s)(i := None)"
  by (simp add: executeConfirmation_def Let_def split: option.splits prod.splits sum.splits)

lemma executeConfirmation_basic_pending:
  "pendingOperations (snd (executeConfirmation_basic env (Some i) po b s)) =
   (pendingOperations s)(i := None)"
  by (simp add: executeConfirmation_basic_def Let_def split: option.splits prod.splits sum.splits)

lemma classifyResponse_nonempty:
  "classifyResponse confirmWords cancelWords r \<noteq> None \<Longrightarrow> r \<noteq> []"
  "classifyResponse confirmWords_basic cancelWords_basic r \<noteq> None \<Longrightarrow> r \<noteq> []"
  by (auto simp: classifyResponse_def confirmWords_def cancelWords_def
      confirmWords_basic_def cancelWords_basic_def eval_text)

lemma handleConfirmation_text_pending:
  assumes "field args ''response'' = Some (JStr r)"
    and "\<not> truthy (field args ''operationId'')"
    and "pendingOperations s ''last_operation'' = Some lastOp"
    and "p_id lastOp = Some i"
    and "classifyResponse confirmWords cancelWords r \<noteq> None"
  shows "pendingOperations (snd (handleConfirmation env now args s)) =
         (pendingOperations s)(i := None)"
  using assms classifyResponse_nonempty(1) [of r]
  by (auto simp: handleConfirmation_def executeConfirmation_pending)

lemma handleConfirmation_id_pending:
  assumes "field args ''operationId'' = Some (JStr i)"
    and "i \<noteq> []"
    and "pendingOperations s i = Some p"
  shows "pendingOperations (snd (handleConfirmation env now args s)) =
         (pendingOperations s)(i := None)"
  using assms by (simp add: handleConfirmation_def executeConfirmation_pending)

lemma handleConfirmation_flag_pending:
  assumes "field args ''confirm'' = Some (JBool b)"
    and "\<not> truthy (field args ''operationId'')"
    and "\<not> truthy (field args ''response'')"
    and "pendingOperations s ''last_operation'' = Some lastOp"
    and "p_id lastOp = Some i"
  shows "pendingOperations (snd (handleConfirmation env now args s)) =
         (pendingOperations s)(i := None)"
  using assms by (simp add: handleConfirmation_def executeConfirmation_pending)

lemma handleConfirmation_basic_text_pending:
  assumes "field args ''response'' = Some (JStr r)"
    and "\<not> truthy (field args ''operationId'')"
    and "pendingOperations s ''last_operation'' = Some lastOp"
    and "p_id lastOp = Some i"
    and "classifyResponse confirmWords_basic cancelWords_basic r \<noteq> None"
  shows "pendingOperations (snd (handleConfirmation_basic env args s)) =
         (pendingOperations s)(''last_operation'' := None, i := None)"
  using assms classifyResponse_nonempty(2) [of r]
  by (auto simp: handleConfirmation_basic_def executeConfirmation_basic_pending)

lemma handleConfirmation_basic_id_pending:
  assumes "field args ''operationId'' = Some (JStr i)"
    and "i \<noteq> []"
    and "pendingOperations s i = Some p"
  shows "pendingOperations (snd (handleConfirmation_basic env args s)) =
         (pendingOperations s)(i := None)"
  using assms by (simp add: handleConfirmation_basic_def executeConfirmation_basic_pending)

lemma handleConfirmation_alias_kept:
  assumes al: "pendingOperations s ''last_operation'' = Some lastOp"
    and tgt: "p_id lastOp = Some i"
    and real: "i \<noteq> ''last_operation''"
    and other: "field args ''operationId'' \<noteq> Some (JStr ''last_operation'')"
  shows "pendingOperations (snd (handleConfirmation env now args s)) ''last_operation'' =
         Some lastOp"
proof -
  consider (byText) "truthy (field args ''response'')" "\<not> truthy (field args ''operationId'')"
    | (byId) "truthy (field args ''operationId'')"
    | (byFlag) "\<not> truthy (field args ''response'')" "\<not> truthy (field args ''operationId'')"
    by blast
  then show ?thesis
  proof cases
    case byText
    then show ?thesis
      using al tgt real
      by (simp add: handleConfirmation_def Let_def executeConfirmation_pending
          split: option.split jsval.split sum.split)
  next
    case byId
    then show ?thesis
      using al other
      by (auto simp: handleConfirmation_def Let_def executeConfirmation_pending
          split: option.split jsval.split sum.split)
  next
    case byFlag
    then show ?thesis
      using al tgt real
      by (simp add: handleConfirmation_def Let_def executeConfirmation_pending
          split: option.split jsval.split sum.split)
  qed
qed

lemma handleConfirmation_basic_alias_kept:
  assumes al: "pendingOperations s ''last_operation'' = Some lastOp"
    and other: "field args ''operationId'' \<noteq> Some (JStr ''last_operation'')"
    and path: "truthy (field args ''operationId'') \<or> \<not> truthy (field args ''response'')"
  shows "pendingOperations (snd (handleConfirmation_basic env args s)) ''last_operation'' =
         Some lastOp"
proof (cases "truthy (field args ''operationId'')")
  case True
  then show ?thesis
    using al other
    by (auto simp: handleConfirmation_basic_def Let_def executeConfirmation_basic_pending
        split: option.split jsval.split sum.split)
next
  case False
  then show ?thesis
    using al path by (simp add: handleConfirmation_basic_def)
qed

lemma handleConfirmation_basic_flag:
  assumes "\<not> truthy (field args ''operationId'')"
    and "\<not> truthy (field args ''response'')"
  shows "handleConfirmation_basic env args s =
         (Inl (McpError InvalidRequest ''Either operationId or response must be provided''), s)"
  using assms by (simp add: handleConfirmation_basic_def)

text \<open>
  Claim C3 as stated fails on the server with memory: a free-text confirmation resolves
  and executes the operation but leaves the alias in the map.
\<close>

theorem C3_counterexample:
  "pendingOperations
     (snd (handleConfirmation journalEnv 2000 [(''response'', JStr ''yes'')] awaiting))
     ''last_operation'' =
   Some \<lparr>p_id = Some ''op_1_1000'', p_name = ''create_list'', p_args = Some groceries,
         p_timestamp = 1000\<rparr> \<and>
   pendingOperations
     (snd (handleConfirmation journalEnv 2000 [(''response'', JStr ''yes'')] awaiting))
     ''op_1_1000'' = None \<and>
   db (snd (handleConfirmation journalEnv 2000 [(''response'', JStr ''yes'')] awaiting)) =
     [(''create_list'', Some groceries)]"
proof -
  have c: "classifyResponse confirmWords cancelWords ''yes'' = Some True"
    by (simp add: classifyResponse_def confirmWords_def eval_text)
  have h: "handleConfirmation journalEnv 2000 [(''response'', JStr ''yes'')] awaiting =
      executeConfirmation journalEnv 2000 (Some ''op_1_1000'')
        (Some \<lparr>p_id = None, p_name = ''create_list'', p_args = Some groceries, p_timestamp = 1000\<rparr>)
        True awaiting"
    using c awaiting_alias awaiting_entry
    by (simp add: handleConfirmation_def field_def aliasTarget_def)
  have e: "snd (executeOperation journalEnv ''create_list'' (Some groceries) (db awaiting)) =
      [(''create_list'', Some groceries)]"
    by (simp add: executeOperation_def operationNames_def journalEnv_def awaiting_def)
  show ?thesis
    unfolding h by (simp add: executeConfirmation_pending executeConfirmation_db e awaiting_alias)
qed

text \<open>
  Claim C3, amended. When a confirmation is resolved, the pending entry is removed,
  whatever the execution does afterwards: the entry that the alias stands for in the
  free-text path and, on the server with memory, in the boolean-flag path, the entry of
  the given id in the explicit-id path. The basic server also deletes the alias, in the
  free-text path only: it rejects a boolean flag without an id and changes nothing, and
  any request that carries an id or carries no response leaves the alias as it was. The
  server with memory deletes the alias in no path: whatever the arguments of a
  confirmation, free text, boolean flag or explicit id, the alias is afterwards what it
  was before. The one way to remove the alias entry there is to pass the alias key
  itself as the explicit id, which is excluded here.
\<close>

theorem C3_removal_and_alias:
  assumes al: "pendingOperations s ''last_operation'' = Some lastOp"
    and tgt: "p_id lastOp = Some i"
    and real: "i \<noteq> ''last_operation''"
    and text1: "field argsT ''response'' = Some (JStr r)"
    and text2: "\<not> truthy (field argsT ''operationId'')"
    and text3: "classifyResponse confirmWords cancelWords r \<noteq> None"
    and text4: "classifyResponse confirmWords_basic cancelWords_basic r \<noteq> None"
    and id1: "field argsI ''operationId'' = Some (JStr j)"
    and id2: "j \<noteq> []"
    and id3: "j \<noteq> ''last_operation''"
    and id4: "pendingOperations s j = Some p"
    and flag1: "field argsB ''confirm'' = Some (JBool b)"
    and flag2: "\<not> truthy (field argsB ''operationId'')"
    and flag3: "\<not> truthy (field argsB ''response'')"
  shows "pendingOperations (snd (handleConfirmation_basic env argsT s)) i = None \<and>
         pendingOperations (snd (handleConfirmation_basic env argsT s)) ''last_operation'' = None \<and>
         pendingOperations (snd (handleConfirmation_basic env argsI s)) j = None \<and>
         pendingOperations (snd (handleConfirmation_basic env argsI s)) ''last_operation'' =
           Some lastOp \<and>
         pendingOperations (snd (handleConfirmation env now argsT s)) i = None \<and>
         pendingOperations (snd (handleConfirmation env now argsT s)) ''last_operation'' =
           Some lastOp \<and>
         pendingOperations (snd (handleConfirmation env now argsI s)) j = None \<and>
         pendingOperations (snd (handleConfirmation env now argsI s)) ''last_operation'' =
           Some lastOp \<and>
         pendingOperations (snd (handleConfirmation env now argsB s)) i = None \<and>
         pendingOperations (snd (handleConfirmation env now argsB s)) ''last_operation'' =
           Some lastOp \<and>
         snd (handleConfirmation_basic env argsB s) = s \<and>
         (\<forall>args. field args ''operationId'' \<noteq> Some (JStr ''last_operation'') \<longrightarrow>
            pendingOperations (snd (handleConfirmation env now args s)) ''last_operation'' =
              Some lastOp) \<and>
         (\<forall>args. field args ''operationId'' \<noteq> Some (JStr ''last_operation'') \<and>
                 (truthy (field args ''operationId'') \<or> \<not> truthy (field args ''response'')) \<longrightarrow>
            pendingOperations (snd (handleConfirmation_basic env args s)) ''last_operation'' =
              Some lastOp)"
proof -
  have a: "pendingOperations (snd (handleConfirmation_basic env argsT s)) =
      (pendingOperations s)(''last_operation'' := None, i := None)"
    using text1 text2 al tgt text4 by (rule handleConfirmation_basic_text_pending)
  have b: "pendingOperations (snd (handleConfirmation_basic env argsI s)) =
      (pendingOperations s)(j := None)"
    using id1 id2 id4 by (rule handleConfirmation_basic_id_pending)
  have c: "pendingOperations (snd (handleConfirmation env now argsT s)) =
      (pendingOperations s)(i := None)"
    using text1 text2 al tgt text3 by (rule handleConfirmation_text_pending)
  have d: "pendingOperations (snd (handleConfirmation env now argsI s)) =
      (pendingOperations s)(j := None)"
    using id1 id2 id4 by (rule handleConfirmation_id_pending)
  have e: "pendingOperations (snd (handleConfirmation env now argsB s)) =
      (pendingOperations s)(i := None)"
    using flag1 flag2 flag3 al tgt by (rule handleConfirmation_flag_pending)
  have f: "snd (handleConfirmation_basic env argsB s) = s"
    using flag2 flag3 by (simp add: handleConfirmation_basic_flag)
  have g: "pendingOperations (snd (handleConfirmation env now args s)) ''last_operation'' =
      Some lastOp"
    if "field args ''operationId'' \<noteq> Some (JStr ''last_operation'')" for args
    using al tgt real that by (rule handleConfirmation_alias_kept)
  have h: "pendingOperations (snd (handleConfirmation_basic env args s)) ''last_operation'' =
      Some lastOp"
    if "field args ''operationId'' \<noteq> Some (JStr ''last_operation'')"
      and "truthy (field args ''operationId'') \<or> \<not> truthy (field args ''response'')" for args
    using al that by (rule handleConfirmation_basic_alias_kept)
  have old: "pendingOperations (snd (handleConfirmation_basic env argsT s)) i = None"
    "pendingOperations (snd (handleConfirmation_basic env argsT s)) ''last_operation'' = None"
    "pendingOperations (snd (handleConfirmation_basic env argsI s)) j = None"
    "pendingOperations (snd (handleConfirmation_basic env argsI s)) ''last_operation'' =
       Some lastOp"
    "pendingOperations (snd (handleConfirmation env now argsT s)) i = None"
    "pendingOperations (snd (handleConfirmation env now argsT s)) ''last_operation'' =
       Some lastOp"
    "pendingOperations (snd (handleConfirmation env now argsI s)) j = None"
    "pendingOperations (snd (handleConfirmation env now argsI s)) ''last_operation'' =
       Some lastOp"
    "pendingOperations (snd (handleConfirmation env now argsB s)) i = None"
    "pendingOperations (snd (handleConfirmation env now argsB s)) ''last_operation'' =
       Some lastOp"
    unfolding a b c d e using al real id3 by simp_all
  have g': "\<forall>args. field args ''operationId'' \<noteq> Some (JStr ''last_operation'') \<longrightarrow>
      pendingOperations (snd (handleConfirmation env now args s)) ''last_operation'' =
        Some lastOp"
    using g by blast
  have h': "\<forall>args. field args ''operationId'' \<noteq> Some (JStr ''last_operation'') \<and>
        (truthy (field args ''operationId'') \<or> \<not> truthy (field args ''response'')) \<longrightarrow>
      pendingOperations (snd (handleConfirmation_basic env args s)) ''last_operation'' =
        Some lastOp"
    using h by blast
  show ?thesis
    by (intro conjI old f g' h')
qed

theorem C3_removal_and_alias_witness:
  "pendingOperations
     (snd (handleConfirmation_basic journalEnv [(''response'', JStr ''yes'')] awaiting))
     ''last_operation'' = None \<and>
   pendingOperations
     (snd (handleConfirmation_basic journalEnv
             [(''operationId'', JStr ''op_1_1000''), (''confirm'', JBool True)] awaiting))
     ''last_operation'' \<noteq> None \<and>
   pendingOperations
     (snd (handleConfirmation journalEnv 2000
             [(''operationId'', JStr ''op_1_1000''), (''confirm'', JBool True)] awaiting))
     ''op_1_1000'' = None \<and>
   pendingOperations
     (snd (handleConfirmation journalEnv 2000 [(''confirm'', JBool True)] awaiting))
     ''op_1_1000'' = None \<and>
   pendingOperations
     (snd (handleConfirmation journalEnv 2000 [(''confirm'', JBool True)] awaiting))
     ''last_operation'' \<noteq> None \<and>
   pendingOperations
     (snd (handleConfirmation journalEnv 2000 [(''response'', JStr ''perhaps'')] awaiting))
     ''last_operation'' \<noteq> None \<and>
   pendingOperations
     (snd (handleConfirmation_basic journalEnv [(''confirm'', JBool False)] awaiting))
     ''last_operation'' \<noteq> None"
proof -
  have t: "p_id \<lparr>p_id = Some ''op_1_1000'', p_name = ''create_list'', p_args = Some groceries,
           p_timestamp = 1000\<rparr> = Some ''op_1_1000''"
    by simp
  have c1: "classifyResponse confirmWords cancelWords ''yes'' \<noteq> None"
    by (simp add: classifyResponse_def confirmWords_def eval_text)
  have c2: "classifyResponse confirmWords_basic cancelWords_basic ''yes'' \<noteq> None"
    by (simp add: classifyResponse_def confirmWords_basic_def eval_text)
  have f: "field [(''response'', JStr ''yes'')] ''response'' = Some (JStr ''yes'')"
    "\<not> truthy (field [(''response'', JStr ''yes'')] ''operationId'')"
    "field [(''operationId'', JStr ''op_1_1000''), (''confirm'', JBool True)] ''operationId'' =
      Some (JStr ''op_1_1000'')"
    "''op_1_1000'' \<noteq> []" "''op_1_1000'' \<noteq> ''last_operation''"
    "field [(''confirm'', JBool True)] ''confirm'' = Some (JBool True)"
    "\<not> truthy (field [(''confirm'', JBool True)] ''operationId'')"
    "\<not> truthy (field [(''confirm'', JBool True)] ''response'')"
    by (simp_all add: field_def)
  have u: "field [(''response'', JStr ''perhaps'')] ''operationId'' \<noteq>
      Some (JStr ''last_operation'')"
    "field [(''confirm'', JBool False)] ''operationId'' \<noteq> Some (JStr ''last_operation'') \<and>
     (truthy (field [(''confirm'', JBool False)] ''operationId'') \<or>
      \<not> truthy (field [(''confirm'', JBool False)] ''response''))"
    by (simp_all add: field_def)
  note h = C3_removal_and_alias [OF awaiting_alias t f(5) f(1) f(2) c1 c2 f(3) f(4) f(5)
      awaiting_entry f(6) f(7) f(8), of journalEnv 2000]
  from h have g1: "\<forall>args. field args ''operationId'' \<noteq> Some (JStr ''last_operation'') \<longrightarrow>
      pendingOperations (snd (handleConfirmation journalEnv 2000 args awaiting))
        ''last_operation'' \<noteq> None"
    by simp
  from h have g2: "\<forall>args. field args ''operationId'' \<noteq> Some (JStr ''last_operation'') \<and>
        (truthy (field args ''operationId'') \<or> \<not> truthy (field args ''response'')) \<longrightarrow>
      pendingOperations (snd (handleConfirmation_basic journalEnv args awaiting))
        ''last_operation'' \<noteq> None"
    by simp
  from h g1 [rule_format, OF u(1)] g2 [rule_format, OF u(2)]
  show ?thesis
    by simp
qed

section \<open>The expiry sweep\<close>

text \<open>
  Claim C8 as stated fails: the sweep does not exempt the alias. The alias entry carries
  a timestamp of its own and is deleted with the rest once that is more than five minutes
  old.
\<close>

theorem C8_counterexample:
  "pendingOperations awaiting ''last_operation'' \<noteq> None \<and>
   pendingOperations (cleanupExpiredOperations 301001 awaiting) ''last_operation'' = None"
  by (simp add: cleanupExpiredOperations_def expireTime_def awaiting_def)

text \<open>
  Claim C8, amended. The sweep checks every entry of the pending map by its own
  timestamp, the alias like any operation id: an entry whose age exceeds five minutes is
  removed, any other entry is kept, and the counter and the database are untouched. A
  confirmation against a swept id then fails with \<open>InvalidRequest\<close> (not found or
  expired) and changes nothing.
\<close>

theorem C8_sweep:
  assumes entry: "pendingOperations s k = Some operation"
    and arg: "field args ''operationId'' = Some (JStr k)"
    and key: "k \<noteq> []"
  shows "(int now - int (p_timestamp operation) > 5 * 60 * 1000 \<longrightarrow>
            pendingOperations (cleanupExpiredOperations now s) k = None \<and>
            handleConfirmation_basic env args (cleanupExpiredOperations now s) =
              (Inl (McpError InvalidRequest (''Operation '' @ k @ '' not found or has expired'')),
               cleanupExpiredOperations now s)) \<and>
         (\<not> int now - int (p_timestamp operation) > 5 * 60 * 1000 \<longrightarrow>
            pendingOperations (cleanupExpiredOperations now s) k = Some operation) \<and>
         operationCounter (cleanupExpiredOperations now s) = operationCounter s \<and>
         db (cleanupExpiredOperations now s) = db s"
proof -
  have gone: "pendingOperations (cleanupExpiredOperations now s) k = None"
    if "int now - int (p_timestamp operation) > 5 * 60 * 1000"
    using that entry by (simp add: cleanupExpiredOperations_def expireTime_def)
  have refused: "handleConfirmation_basic env args s' =
      (Inl (McpError InvalidRequest (''Operation '' @ k @ '' not found or has expired'')), s')"
    if "pendingOperations s' k = None" for s' :: "('a, 'b) server_scheme"
    using that arg key by (simp add: handleConfirmation_basic_def)
  have kept: "pendingOperations (cleanupExpiredOperations now s) k = Some operation"
    if "\<not> int now - int (p_timestamp operation) > 5 * 60 * 1000"
    using that entry by (simp add: cleanupExpiredOperations_def expireTime_def)
  have frame: "operationCounter (cleanupExpiredOperations now s) = operationCounter s"
    "db (cleanupExpiredOperations now s) = db s"
    by (simp_all add: cleanupExpiredOperations_def)
  show ?thesis
    using gone refused kept frame by blast
qed

theorem C8_sweep_witness:
  "pendingOperations (cleanupExpiredOperations 301001 awaiting) ''op_1_1000'' = None \<and>
   handleConfirmation_basic journalEnv
     [(''operationId'', JStr ''op_1_1000''), (''confirm'', JBool True)]
     (cleanupExpiredOperations 301001 awaiting) =
     (Inl (McpError InvalidRequest ''Operation op_1_1000 not found or has expired''),
      cleanupExpiredOperations 301001 awaiting) \<and>
   pendingOperations (cleanupExpiredOperations 301000 awaiting) ''op_1_1000'' \<noteq> None"
proof -
  have a: "field [(''operationId'', JStr ''op_1_1000''), (''confirm'', JBool True)] ''operationId'' =
      Some (JStr ''op_1_1000'')"
    by (simp add: field_def)
  have b: "''op_1_1000'' \<noteq> []"
    by simp
  note h1 = C8_sweep [OF awaiting_entry a b, of 301001 journalEnv]
  note h2 = C8_sweep [OF awaiting_entry a b, of 301000 journalEnv]
  show ?thesis
    using h1 h2 by simp
qed

section \<open>Free text and the explicit flag\<close>

lemma handleConfirmation_text:
  assumes "field args ''response'' = Some (JStr r)"
    and "\<not> truthy (field args ''operationId'')"
    and "pendingOperations s ''last_operation'' = Some lastOp"
    and "classifyResponse confirmWords cancelWords r = Some b"
  shows "handleConfirmation env now args s =
         executeConfirmation env now (p_id lastOp) (aliasTarget (pendingOperations s) lastOp) b s"
  using assms classifyResponse_nonempty(1) [of r] by (simp add: handleConfirmation_def)

lemma handleConfirmation_id:
  assumes "field args ''operationId'' = Some (JStr i)"
    and "i \<noteq> []"
    and "pendingOperations s i = Some p"
  shows "handleConfirmation env now args s =
         executeConfirmation env now (Some i) (Some p) (truthy (field args ''confirm'')) s"
  using assms by (simp add: handleConfirmation_def)

text \<open>
  Claim C6. For a pending operation that the alias reaches, confirming with free text
  that is classified as affirmative and confirming its id with \<open>confirm = true\<close> give the
  same result and the same state; the database afterwards is the one that
  \<open>executeOperation\<close> leaves for the stored name and arguments.
\<close>

theorem C6_text_equals_flag:
  assumes al: "pendingOperations s ''last_operation'' = Some lastOp"
    and tgt: "p_id lastOp = Some i"
    and key: "i \<noteq> []"
    and entry: "pendingOperations s i = Some p"
    and text1: "field argsT ''response'' = Some (JStr r)"
    and text2: "\<not> truthy (field argsT ''operationId'')"
    and text3: "classifyResponse confirmWords cancelWords r = Some True"
    and id1: "field argsI ''operationId'' = Some (JStr i)"
    and id2: "field argsI ''confirm'' = Some (JBool True)"
  shows "handleConfirmation env now argsT s = handleConfirmation env now argsI s \<and>
         db (snd (handleConfirmation env now argsT s)) =
           snd (executeOperation env (p_name p) (p_args p) (db s)) \<and>
         db (snd (handleConfirmation env now argsI s)) =
           snd (executeOperation env (p_name p) (p_args p) (db s))"
proof -
  have t: "handleConfirmation env now argsT s =
      executeConfirmation env now (Some i) (Some p) True s"
    using handleConfirmation_text [OF text1 text2 al text3] tgt entry
    by (simp add: aliasTarget_def)
  have e: "handleConfirmation env now argsI s =
      executeConfirmation env now (Some i) (Some p) True s"
    using handleConfirmation_id [OF id1 key entry] id2 by simp
  show ?thesis
    unfolding t e by (simp add: executeConfirmation_db)
qed

theorem C6_text_equals_flag_witness:
  "handleConfirmation journalEnv 2000 [(''response'', JStr ''go ahead'')] awaiting =
   handleConfirmation journalEnv 2000
     [(''operationId'', JStr ''op_1_1000''), (''confirm'', JBool True)] awaiting \<and>
   db (snd (handleConfirmation journalEnv 2000 [(''response'', JStr ''go ahead'')] awaiting)) =
     [(''create_list'', Some groceries)]"
proof -
  have t: "p_id \<lparr>p_id = Some ''op_1_1000'', p_name = ''create_list'', p_args = Some groceries,
           p_timestamp = 1000\<rparr> = Some ''op_1_1000''"
    by simp
  have c: "classifyResponse confirmWords cancelWords ''go ahead'' = Some True"
    by (simp add: classifyResponse_def confirmWords_def eval_text)
  have f: "field [(''response'', JStr ''go ahead'')] ''response'' = Some (JStr ''go ahead'')"
    "\<not> truthy (field [(''response'', JStr ''go ahead'')] ''operationId'')"
    "field [(''operationId'', JStr ''op_1_1000''), (''confirm'', JBool True)] ''operationId'' =
      Some (JStr ''op_1_1000'')"
    "field [(''operationId'', JStr ''op_1_1000''), (''confirm'', JBool True)] ''confirm'' =
      Some (JBool True)"
    "''op_1_1000'' \<noteq> []"
    by (simp_all add: field_def)
  have e: "snd (executeOperation journalEnv ''create_list'' (Some groceries) (db awaiting)) =
      [(''create_list'', Some groceries)]"
    by (simp add: executeOperation_def operationNames_def journalEnv_def awaiting_def)
  note h = C6_text_equals_flag [OF awaiting_alias t f(5) awaiting_entry f(1) f(2) c f(3) f(4),
      of journalEnv 2000]
  show ?thesis
    using h e by simp
qed

section \<open>The bounded interaction log\<close>

lemma getSession_fst:
  "fst (getSession mem sid now) =
   (case sessions mem sid of None \<Rightarrow> newSession now | Some s \<Rightarrow> s)\<lparr>lastAccessed := now\<rparr>"
  by (simp add: getSession_def Let_def)

lemma getSession_snd:
  "snd (getSession mem sid now) =
   mem\<lparr>sessions := (sessions mem)(sid \<mapsto> fst (getSession mem sid now))\<rparr>"
  by (simp add: getSession_def Let_def)

lemma addInteraction_maxEntries [simp]:
  "maxEntries (addInteraction mem sid operation params res now) = maxEntries mem"
  by (simp add: addInteraction_def getSession_def Let_def)

lemma addInteraction_other:
  "k \<noteq> sid \<Longrightarrow> sessions (addInteraction mem sid operation params res now) k = sessions mem k"
  by (simp add: addInteraction_def getSession_def Let_def)






section \<open>The session of a request\<close>

lemma touchesOnly_refl [simp]: "touchesOnly sid m m"
  by (simp add: touchesOnly_def)

lemma touchesOnly_trans: "touchesOnly sid a b \<Longrightarrow> touchesOnly sid b c \<Longrightarrow> touchesOnly sid a c"
  by (simp add: touchesOnly_def)

lemma getSession_touches: "touchesOnly sid mem (snd (getSession mem sid now))"
  by (simp add: touchesOnly_def getSession_def Let_def)

lemma addInteraction_touches:
  "touchesOnly sid mem (addInteraction mem sid operation params res now)"
  by (simp add: touchesOnly_def addInteraction_other)

lemma getContextualSuggestions_touches:
  "touchesOnly sid mem (snd (getContextualSuggestions mem sid operation params now))"
  using getSession_touches [of sid mem now]
  by (auto simp: getContextualSuggestions_def Let_def split: prod.splits)

lemma getConversationContext_touches:
  "touchesOnly sid mem (snd (getConversationContext mem sid limit now))"
  using getSession_touches [of sid mem now]
  by (auto simp: getConversationContext_def Let_def split: prod.splits sum.splits)

lemma getContextualSuggestions_touches':
  "getContextualSuggestions mem sid operation params now = (r, mem') \<Longrightarrow>
   touchesOnly sid mem mem'"
  using getContextualSuggestions_touches [of sid mem operation params now] by simp

lemma handleGetContext_touches:
  "touchesOnly sid mem (snd (handleGetContext env now sid args mem))"
proof -
  obtain r mem1 where c: "getConversationContext mem sid 5 now = (r, mem1)"
    by (cases "getConversationContext mem sid 5 now")
  then have t1: "touchesOnly sid mem mem1"
    using getConversationContext_touches [of sid mem 5 now] by simp
  have t2: "touchesOnly sid mem mem2"
    if "getContextualSuggestions mem1 sid operation params now = (sg, mem2)"
    for operation params sg mem2
    using t1 getContextualSuggestions_touches' [OF that] by (rule touchesOnly_trans)
  show ?thesis
    using c t1 t2
    by (auto simp: handleGetContext_def split: sum.split option.split prod.split)
qed

lemma enhanceResultWithContext_touches:
  "touchesOnly sid mem (snd (enhanceResultWithContext mem sid operation params t now))"
  by (auto simp: enhanceResultWithContext_def getContextualSuggestions_touches'
      split: prod.split sum.split)

lemma addInteraction_call_touches:
  "touchesOnly sid mem (snd (addInteraction_call mem sid operation params res now))"
proof (cases params)
  case (Some p)
  then show ?thesis
    by (simp add: addInteraction_call_def addInteraction_touches)
next
  case None
  show ?thesis
  proof (cases "firstParamRead operation")
    case None
    with \<open>params = None\<close> show ?thesis
      by (simp add: addInteraction_call_def addInteraction_touches)
  next
    case (Some k)
    with \<open>params = None\<close> show ?thesis
      by (simp add: addInteraction_call_def getSession_def Let_def touchesOnly_def)
  qed
qed

lemma addInteraction_call_touches':
  "addInteraction_call mem sid operation params res now = (e, mem') \<Longrightarrow>
   touchesOnly sid mem mem'"
  using addInteraction_call_touches [of sid mem operation params res now] by simp

lemma executeConfirmation_touches:
  "touchesOnly ''default'' (memory s) (memory (snd (executeConfirmation env now k po b s)))"
  by (cases k)
     (auto simp: executeConfirmation_def Let_def addInteraction_call_touches'
        split: option.split prod.split sum.split)

lemma handleConfirmation_touches:
  "touchesOnly ''default'' (memory s) (memory (snd (handleConfirmation env now args s)))"
proof -
  consider (byText) "truthy (field args ''response'')" "\<not> truthy (field args ''operationId'')"
    | (byId) "truthy (field args ''operationId'')"
    | (byFlag) "\<not> truthy (field args ''response'')" "\<not> truthy (field args ''operationId'')"
    by blast
  then show ?thesis
  proof cases
    case byText
    then show ?thesis
      by (simp add: handleConfirmation_def Let_def executeConfirmation_touches
          split: option.split jsval.split sum.split)
  next
    case byId
    then show ?thesis
      by (simp add: handleConfirmation_def Let_def executeConfirmation_touches
          split: option.split jsval.split sum.split)
  next
    case byFlag
    then show ?thesis
      by (simp add: handleConfirmation_def Let_def executeConfirmation_touches
          split: option.split jsval.split sum.split)
  qed
qed

lemma requestConfirmation_memory:
  "memory (snd (requestConfirmation env now name args s)) = memory s"
  by (simp add: requestConfirmation_def Let_def split: sum.split)

lemma callToolBody_touches:
  "touchesOnly ''default'' (memory s) (memory (snd (callToolBody env now ''default'' name args s)))"
proof -
  consider (ctx) "name = ''get_context''"
    | (conf) "name \<noteq> ''get_context''" "name = ''confirm_operation''"
    | (rd) "name \<noteq> ''get_context''" "name \<noteq> ''confirm_operation''" "isReadOperation name"
    | (wr) "name \<noteq> ''get_context''" "name \<noteq> ''confirm_operation''" "\<not> isReadOperation name"
    by blast
  then show ?thesis
  proof cases
    case ctx
    then show ?thesis
      using handleGetContext_touches [of "''default''" "memory s" env "recordTime now" args]
      by (auto simp: callToolBody_def split: prod.splits)
  next
    case conf
    show ?thesis
    proof (cases args)
      case None
      then show ?thesis
        using conf by (simp add: callToolBody_def)
    next
      case (Some a)
      obtain r s1 where h: "handleConfirmation env (recordTime now) a s = (r, s1)"
        by (cases "handleConfirmation env (recordTime now) a s")
      then have t: "touchesOnly ''default'' (memory s) (memory s1)"
        using handleConfirmation_touches [of s env "recordTime now" a] by simp
      have "touchesOnly ''default'' (memory s)
          (addInteraction (memory s1) ''default'' ''confirm_operation'' a (Content t)
             (recordTime now))"
        for t
        using t addInteraction_touches by (rule touchesOnly_trans)
      then show ?thesis
        using conf Some h t by (cases r) (simp_all add: callToolBody_def)
    qed
  next
    case rd
    obtain r d where e: "executeOperation env name args (db s) = (r, d)"
      by (cases "executeOperation env name args (db s)")
    show ?thesis
    proof (cases r)
      case (Inl err)
      then show ?thesis
        using rd e by (simp add: callToolBody_def)
    next
      case (Inr t)
      obtain thrown mem1 where a: "addInteraction_call (memory s) ''default'' name args
          (Content t) (recordTime now) = (thrown, mem1)"
        by (cases "addInteraction_call (memory s) ''default'' name args
          (Content t) (recordTime now)")
      then have t1: "touchesOnly ''default'' (memory s) mem1"
        by (rule addInteraction_call_touches')
      show ?thesis
      proof (cases thrown)
        case (Some err)
        then show ?thesis
          using rd e Inr a t1 by (simp add: callToolBody_def)
      next
        case None
        obtain r2 mem2 where h: "enhanceResultWithContext mem1 ''default'' name args t
            (recordTime now) = (r2, mem2)"
          by (cases "enhanceResultWithContext mem1 ''default'' name args t (recordTime now)")
        then have "touchesOnly ''default'' mem1 mem2"
          using enhanceResultWithContext_touches
            [of "''default''" mem1 name args t "recordTime now"]
          by simp
        with t1 have "touchesOnly ''default'' (memory s) mem2"
          by (rule touchesOnly_trans)
        then show ?thesis
          using rd e Inr a None h by (simp add: callToolBody_def)
      qed
    qed
  next
    case wr
    then show ?thesis
      using requestConfirmation_memory [of env now name args s]
      by (simp add: callToolBody_def)
  qed
qed

lemma callTool_touches:
  "touchesOnly ''default'' (memory s) (memory (snd (callTool env now request s)))"
proof -
  obtain r s1 where b: "callToolBody env now ''default'' (r_name request) (r_arguments request) s
      = (r, s1)"
    by (cases "callToolBody env now ''default'' (r_name request) (r_arguments request) s")
  then have t: "touchesOnly ''default'' (memory s) (memory s1)"
    using callToolBody_touches [of s env now "r_name request" "r_arguments request"] by simp
  have "touchesOnly ''default'' (memory s) mem1"
    if "addInteraction_call (memory s1) ''default'' (r_name request) (r_arguments request)
          res (recordTime now) = (thrown, mem1)"
    for res thrown mem1
    using t addInteraction_call_touches' [OF that] by (rule touchesOnly_trans)
  then show ?thesis
    using b t
    by (cases r)
       (auto simp: callTool_def getSessionId_def Let_def split: prod.split option.split)
qed

text \<open>
  Claim C10. The session id of every request is the constant \<open>default\<close>, whatever the
  request holds: handling a request changes no session of the memory other than
  \<open>default\<close>, and two requests with the same tool name and arguments are handled alike
  whatever else distinguishes them, so all callers share that one session.
\<close>

theorem C10_single_session:
  fixes request :: "'y request_scheme" and request' :: "'z request_scheme"
  shows "getSessionId request = ''default'' \<and>
         touchesOnly ''default'' (memory s) (memory (snd (callTool env now request s))) \<and>
         (r_name request' = r_name request \<and> r_arguments request' = r_arguments request \<longrightarrow>
            callTool env now request' s = callTool env now request s)"
proof (intro conjI)
  show "getSessionId request = ''default''"
    by (simp add: getSessionId_def)
  show "touchesOnly ''default'' (memory s) (memory (snd (callTool env now request s)))"
    by (rule callTool_touches)
  show "r_name request' = r_name request \<and> r_arguments request' = r_arguments request \<longrightarrow>
        callTool env now request' s = callTool env now request s"
    by (simp add: callTool_def getSessionId_def)
qed

theorem C10_single_session_witness:
  "getSessionId aliceRequest = ''default'' \<and>
   sessions (memory (snd (callTool journalEnv (steady 2000) aliceRequest awaiting))) ''alice'' =
     sessions (memory awaiting) ''alice'' \<and>
   callTool journalEnv (steady 2000) createListRequest awaiting =
     callTool journalEnv (steady 2000) aliceRequest awaiting"
proof -
  note h = C10_single_session [of aliceRequest awaiting journalEnv "steady 2000" createListRequest]
  have n: "''alice'' \<noteq> ''default''"
    by simp
  have r: "r_name createListRequest = r_name aliceRequest \<and>
      r_arguments createListRequest = r_arguments aliceRequest"
    by (simp add: createListRequest_def aliceRequest_def)
  have g: "getSessionId aliceRequest = ''default''"
    using h by (rule conjunct1)
  have t: "touchesOnly ''default'' (memory awaiting)
      (memory (snd (callTool journalEnv (steady 2000) aliceRequest awaiting)))"
    using h by (rule conjunct2 [THEN conjunct1])
  have c: "callTool journalEnv (steady 2000) createListRequest awaiting =
     callTool journalEnv (steady 2000) aliceRequest awaiting"
    using h [THEN conjunct2, THEN conjunct2] r by (rule mp)
  have "sessions (memory (snd (callTool journalEnv (steady 2000) aliceRequest awaiting))) ''alice'' =
     sessions (memory awaiting) ''alice''"
    using t n by (simp add: touchesOnly_def)
  with g c show ?thesis
    by (intro conjI)
qed

section \<open>Operation ids\<close>









section \<open>A write is only recorded as pending\<close>

lemma requestConfirmation_state:
  "snd (requestConfirmation env now name args s) =
   s\<lparr>pendingOperations := (pendingOperations s)
        (newOperationId (operationCounter s + 1) (idTime now) \<mapsto>
           \<lparr>p_id = None, p_name = name, p_args = args, p_timestamp = entryTime now\<rparr>,
         ''last_operation'' \<mapsto>
           \<lparr>p_id = Some (newOperationId (operationCounter s + 1) (idTime now)), p_name = name,
            p_args = args, p_timestamp = aliasTime now\<rparr>),
      operationCounter := operationCounter s + 1\<rparr>"
  by (simp add: requestConfirmation_def Let_def split: sum.split)


lemma prompt_includes_id:
  assumes "generateConfirmationMessage env name args = Inr message"
  shows "\<exists>prompt. fst (requestConfirmation env now name args s) = Inr prompt \<and>
           str_includes prompt (newOperationId (operationCounter s + 1) (idTime now))"
proof -
  let ?i = "newOperationId (operationCounter s + 1) (idTime now)"
  let ?prompt =
     "(warningSign @ ''  CONFIRMATION REQUIRED'' @ nl @ nl @ message @ nl @ nl
       @ ''Operation ID: '')
      @ ?i
      @ (nl @ nl @ ''To proceed, you can either:'' @ nl
         @ ''1. Use the confirm_operation tool with operationId: '' @ dq @ ?i @ dq
         @ '' and confirm: true/false'' @ nl
         @ ''2. Simply reply with '' @ dq @ ''yes'' @ dq @ '', '' @ dq @ ''confirm'' @ dq
         @ '', '' @ dq @ ''proceed'' @ dq @ '' to confirm OR '' @ dq @ ''no'' @ dq @ '', ''
         @ dq @ ''cancel'' @ dq @ '', '' @ dq @ ''abort'' @ dq @ '' to cancel'')"
  have "fst (requestConfirmation env now name args s) = Inr ?prompt"
    using assms by (simp add: requestConfirmation_def Let_def)
  moreover have "sublist ?i ?prompt"
    by (rule sublist_appendI)
  ultimately show ?thesis
    by (simp only: str_includes_sublist) blast
qed

lemma callToolBody_write:
  assumes "name \<noteq> ''get_context''"
    and "name \<noteq> ''confirm_operation''"
    and "\<not> isReadOperation name"
  shows "callToolBody env now sid name args s = requestConfirmation env now name args s"
  using assms by (simp add: callToolBody_def)


lemma callTool_returns:
  assumes "callToolBody env now ''default'' (r_name request) (r_arguments request) s =
      (Inr prompt, s')"
  shows "callTool env now request s = (Inr prompt, s')"
  using assms by (simp add: callTool_def getSessionId_def)


text \<open>
  When the arguments are an object none of whose values throws on being turned into a
  string, the confirmation message is generated.
\<close>

lemma template_returns:
  "\<forall>p\<in>set parts. \<exists>t. p = Inr t \<Longrightarrow> \<exists>m. template parts = Inr m"
proof -
  have "\<forall>p\<in>set parts. \<exists>t. p = Inr t \<Longrightarrow> \<exists>ss. collect parts = Inr ss"
  proof (induction parts)
    case Nil
    then show ?case
      by simp
  next
    case (Cons p parts)
    then obtain t ss where "p = Inr t" and "collect parts = Inr ss"
      by auto
    then show ?case
      by simp
  qed
  then show "\<forall>p\<in>set parts. \<exists>t. p = Inr t \<Longrightarrow> \<exists>m. template parts = Inr m"
    by (auto simp: template_def)
qed

lemma message_generated:
  assumes "\<forall>v\<in>snd ` set a. \<exists>t. js_string v = Inr t"
  shows "\<exists>message. generateConfirmationMessage env name (Some a) = Inr message"
proof -
  define shown where "shown k = (case toStr (field a k) of Inr t \<Rightarrow> t | Inl e \<Rightarrow> [])" for k
  define inserted where
    "inserted k pre post = (if truthy (field a k) then pre @ shown k @ post else [])"
    for k pre post
  have str: "toStr (field a k) = Inr (shown k)" for k
  proof (cases "field a k")
    case None
    then show ?thesis
      by (simp add: shown_def)
  next
    case (Some v)
    then have "(k, v) \<in> set a"
      unfolding field_def by (rule map_of_SomeD)
    then have "v \<in> snd ` set a"
      by (rule image_eqI [rotated]) simp
    then obtain t where "js_string v = Inr t"
      using assms by blast
    then show ?thesis
      using Some by (simp add: shown_def)
  qed
  have sub: "(case argument (Some a) k of Inl e \<Rightarrow> Inl e | Inr v \<Rightarrow> toStr v) =
      Inr (shown k)" for k
    by (simp add: str)
  have opt: "(case argument (Some a) k of
                Inl e \<Rightarrow> Inl e
              | Inr v \<Rightarrow> if truthy v then template [Inr pre, toStr v, Inr post]
                        else Inr []) = Inr (inserted k pre post)"
    for k pre post
    by (simp add: str inserted_def template_def)
  have flag: "(case argument (Some a) k of
                 Inl e \<Rightarrow> Inl e
               | Inr v \<Rightarrow> Inr (if truthy v then warning else [])) =
      Inr (if truthy (field a k) then warning else [])"
    for k and warning :: string
    by simp
  have branch: "\<exists>message. (if c then x else y) = Inr message"
    if "\<exists>message. x = Inr message" and "\<exists>message. y = Inr message"
    for c and x y :: "error + string"
    using that by simp
  show ?thesis
    unfolding generateConfirmationMessage_def Let_def sub opt flag
    by (intro branch) (simp_all only: template_def collect.simps sum.case sum.inject simp_thms)
qed



lemma keysShrink_refl [simp]: "keysShrink s s"
  by (simp add: keysShrink_def)

lemma keysShrink_memory [simp]: "keysShrink s (s'\<lparr>memory := m\<rparr>) = keysShrink s s'"
  by (simp add: keysShrink_def)

lemma keysShrink_db [simp]: "keysShrink s (s'\<lparr>db := d\<rparr>) = keysShrink s s'"
  by (simp add: keysShrink_def)

lemma keysShrink_ok:
  assumes ks: "keysShrink s s'" and ok: "pendingKeysOk s"
  shows "pendingKeysOk s'"
  unfolding pendingKeysOk_def
proof
  fix k
  assume "k \<in> dom (pendingOperations s')"
  then have "k \<in> dom (pendingOperations s)"
    using ks unfolding keysShrink_def by (simp add: subset_iff)
  with ok have "k = ''last_operation'' \<or>
      (\<exists>c t. c \<le> operationCounter s \<and> k = newOperationId c t)"
    unfolding pendingKeysOk_def by (rule bspec)
  then show "k = ''last_operation'' \<or>
      (\<exists>c t. c \<le> operationCounter s' \<and> k = newOperationId c t)"
    using ks by (simp add: keysShrink_def)
qed

lemma executeConfirmation_keys: "keysShrink s (snd (executeConfirmation env now k po b s))"
  by (cases k; cases po)
     (auto simp: executeConfirmation_def Let_def keysShrink_def
        split: prod.split sum.split option.split)

lemma handleConfirmation_keys: "keysShrink s (snd (handleConfirmation env now args s))"
proof -
  consider (byText) "truthy (field args ''response'')" "\<not> truthy (field args ''operationId'')"
    | (byId) "truthy (field args ''operationId'')"
    | (byFlag) "\<not> truthy (field args ''response'')" "\<not> truthy (field args ''operationId'')"
    by blast
  then show ?thesis
  proof cases
    case byText
    then show ?thesis
      by (simp add: handleConfirmation_def Let_def executeConfirmation_keys
          split: option.split jsval.split sum.split)
  next
    case byId
    then show ?thesis
      by (simp add: handleConfirmation_def Let_def executeConfirmation_keys
          split: option.split jsval.split sum.split)
  next
    case byFlag
    then show ?thesis
      by (simp add: handleConfirmation_def Let_def executeConfirmation_keys
          split: option.split jsval.split sum.split)
  qed
qed

lemma requestConfirmation_ok:
  assumes "pendingKeysOk s"
  shows "pendingKeysOk (snd (requestConfirmation env now name args s))"
  unfolding pendingKeysOk_def
proof
  fix k
  let ?s' = "snd (requestConfirmation env now name args s)"
  assume k: "k \<in> dom (pendingOperations ?s')"
  have c: "operationCounter ?s' = operationCounter s + 1"
    by (simp add: requestConfirmation_state)
  have "k = ''last_operation'' \<or> k = newOperationId (operationCounter s + 1) (idTime now) \<or>
      k \<in> dom (pendingOperations s)"
    using k by (simp add: requestConfirmation_state domIff split: if_splits)
  then consider (al) "k = ''last_operation''"
    | (new) "k = newOperationId (operationCounter s + 1) (idTime now)"
    | (old) "k \<noteq> ''last_operation''" "k \<in> dom (pendingOperations s)"
    by blast
  then show "k = ''last_operation'' \<or>
      (\<exists>c t. c \<le> operationCounter ?s' \<and> k = newOperationId c t)"
  proof cases
    case al
    then show ?thesis
      by simp
  next
    case new
    have "operationCounter s + 1 \<le> operationCounter ?s'"
      using c by simp
    with new show ?thesis
      by blast
  next
    case old
    with assms have "k = ''last_operation'' \<or>
        (\<exists>c t. c \<le> operationCounter s \<and> k = newOperationId c t)"
      unfolding pendingKeysOk_def by blast
    then obtain c' t' where "c' \<le> operationCounter s" and e: "k = newOperationId c' t'"
      using old(1) by blast
    then have "c' \<le> operationCounter ?s'"
      using c by simp
    with e show ?thesis
      by blast
  qed
qed

lemma callToolBody_ok:
  assumes "pendingKeysOk s"
  shows "pendingKeysOk (snd (callToolBody env now sid name args s))"
proof -
  consider (ctx) "name = ''get_context''"
    | (conf) "name \<noteq> ''get_context''" "name = ''confirm_operation''"
    | (rd) "name \<noteq> ''get_context''" "name \<noteq> ''confirm_operation''" "isReadOperation name"
    | (wr) "name \<noteq> ''get_context''" "name \<noteq> ''confirm_operation''" "\<not> isReadOperation name"
    by blast
  then show ?thesis
  proof cases
    case ctx
    have "keysShrink s (snd (callToolBody env now sid name args s))"
      using ctx by (simp add: callToolBody_def keysShrink_def split: prod.split)
    then show ?thesis
      using assms by (rule keysShrink_ok)
  next
    case conf
    have "keysShrink s (snd (callToolBody env now sid name args s))"
    proof (cases args)
      case None
      then show ?thesis
        using conf by (simp add: callToolBody_def keysShrink_def)
    next
      case (Some a)
      obtain r s1 where h: "handleConfirmation env (recordTime now) a s = (r, s1)"
        by (cases "handleConfirmation env (recordTime now) a s")
      then have "keysShrink s s1"
        using handleConfirmation_keys [of s env "recordTime now" a] by simp
      then show ?thesis
        using conf Some h by (cases r) (simp_all add: callToolBody_def keysShrink_def)
    qed
    then show ?thesis
      using assms by (rule keysShrink_ok)
  next
    case rd
    have "keysShrink s (snd (callToolBody env now sid name args s))"
      using rd
      by (simp add: callToolBody_def keysShrink_def split: prod.split sum.split option.split)
    then show ?thesis
      using assms by (rule keysShrink_ok)
  next
    case wr
    then show ?thesis
      using requestConfirmation_ok [OF assms, of env now name args]
      by (simp add: callToolBody_def)
  qed
qed


lemma callTool_ok:
  assumes "pendingKeysOk s"
  shows "pendingKeysOk (snd (callTool env now request s))"
proof -
  have "keysShrink (snd (callToolBody env now ''default'' (r_name request) (r_arguments request) s))
      (snd (callTool env now request s))"
    by (simp add: callTool_def getSessionId_def Let_def
        split: prod.split sum.split option.split)
  moreover have "pendingKeysOk
      (snd (callToolBody env now ''default'' (r_name request) (r_arguments request) s))"
    using assms by (rule callToolBody_ok)
  ultimately show ?thesis
    by (rule keysShrink_ok)
qed

lemma dec_1: "dec (Suc 0) = ''1''"
proof -
  have "dec 1 = ''1''"
    by code_simp
  then show ?thesis
    by simp
qed

lemma dec_1000: "dec 1000 = ''1000''"
  by code_simp


section \<open>Confirming twice\<close>

text \<open>The waiting server is what the handler makes of a new server asked to create the list.\<close>

lemma awaiting_reached:
  "snd (callTool journalEnv (steady 1000) createListRequest (newServer [])) = awaiting"
proof -
  have g: "generateConfirmationMessage journalEnv ''create_list'' (Some groceries) =
      Inr (''Create new list: '' @ dq @ ''Groceries'' @ dq)"
    by (simp add: generateConfirmationMessage_def template_def field_def groceries_def)
  obtain prompt where "fst (requestConfirmation journalEnv (steady 1000) ''create_list''
      (Some groceries) (newServer [])) = Inr prompt"
    using prompt_includes_id [OF g] by blast
  then have "callToolBody journalEnv (steady 1000) ''default'' (r_name createListRequest)
      (r_arguments createListRequest) (newServer []) =
      (Inr prompt, snd (requestConfirmation journalEnv (steady 1000) ''create_list''
         (Some groceries) (newServer [])))"
    by (simp add: callToolBody_write createListRequest_def isReadOperation_def prod_eq_iff)
  then have "snd (callTool journalEnv (steady 1000) createListRequest (newServer [])) =
      snd (requestConfirmation journalEnv (steady 1000) ''create_list''
         (Some groceries) (newServer []))"
    by (simp add: callTool_returns)
  moreover have "newOperationId (Suc 0) 1000 = ''op_1_1000''"
    by (simp add: newOperationId_def dec_1 dec_1000)
  ultimately show ?thesis
    by (simp add: requestConfirmation_state newServer_def awaiting_def steady_def)
qed

lemma callTool_confirm:
  assumes "r_name request = ''confirm_operation''"
    and "r_arguments request = Some a"
  shows "pendingOperations (snd (callTool env now request s)) =
           pendingOperations (snd (handleConfirmation env (recordTime now) a s))"
    and "db (snd (callTool env now request s)) =
           db (snd (handleConfirmation env (recordTime now) a s))"
    and "fst (callTool env now request s) =
           (case fst (handleConfirmation env (recordTime now) a s) of
              Inr t \<Rightarrow> Inr t
            | Inl (McpError c m) \<Rightarrow> Inl (McpError c m)
            | Inl (JsError m) \<Rightarrow>
                Inl (McpError InternalError (''Error executing confirm_operation: '' @ m)))"
  using assms
  by (auto simp: callTool_def callToolBody_def getSessionId_def Let_def addInteraction_call_def
      split: prod.split sum.split error.split)

lemma confirmed_id_not_found:
  assumes "field args ''operationId'' = Some (JStr i)"
    and "i \<noteq> []"
    and "pendingOperations s i = Some p"
  shows "handleConfirmation env later args (snd (handleConfirmation env now args s)) =
         (Inl (McpError InvalidRequest (''No pending operation found with ID: '' @ i)),
          snd (handleConfirmation env now args s))"
proof -
  have "pendingOperations (snd (handleConfirmation env now args s)) i = None"
    using assms by (simp add: handleConfirmation_id_pending)
  then show ?thesis
    using assms(1,2) by (simp add: handleConfirmation_def)
qed

text \<open>
  When the alias points at an id that is no longer in the map, the two paths that go
  through the alias reach \<open>executeConfirmation\<close> with an undefined entry and throw a
  \<open>TypeError\<close>; they have no check like the one of the explicit-id path.
\<close>

lemma stale_alias_flag:
  assumes "pendingOperations s ''last_operation'' = Some lastOp"
    and "p_id lastOp = Some i"
    and "pendingOperations s i = None"
    and "field args ''confirm'' = Some (JBool b)"
    and "\<not> truthy (field args ''operationId'')"
    and "\<not> truthy (field args ''response'')"
  shows "handleConfirmation env now args s = (Inl undefinedName, s)"
  using assms
  by (simp add: handleConfirmation_def executeConfirmation_def aliasTarget_def fun_upd_idem)

lemma stale_alias_text:
  assumes "pendingOperations s ''last_operation'' = Some lastOp"
    and "p_id lastOp = Some i"
    and "pendingOperations s i = None"
    and "field args ''response'' = Some (JStr r)"
    and "\<not> truthy (field args ''operationId'')"
    and "classifyResponse confirmWords cancelWords r = Some b"
  shows "handleConfirmation env now args s = (Inl undefinedName, s)"
  using assms handleConfirmation_text [of args r s lastOp b env now]
  by (simp add: executeConfirmation_def aliasTarget_def fun_upd_idem)

lemma confirmedOnce_pending:
  "pendingOperations confirmedOnce ''op_1_1000'' = None"
  "pendingOperations confirmedOnce ''last_operation'' =
     Some \<lparr>p_id = Some ''op_1_1000'', p_name = ''create_list'', p_args = Some groceries,
           p_timestamp = 1000\<rparr>"
proof -
  have "pendingOperations confirmedOnce =
      (pendingOperations awaiting)(''op_1_1000'' := None)"
    unfolding confirmedOnce_def
    by (simp add: callTool_confirm(1) [of _ byIdArgs] confirmByIdRequest_def steady_def
        handleConfirmation_id_pending [OF _ _ awaiting_entry] field_def byIdArgs_def)
  then show "pendingOperations confirmedOnce ''op_1_1000'' = None"
    and "pendingOperations confirmedOnce ''last_operation'' =
     Some \<lparr>p_id = Some ''op_1_1000'', p_name = ''create_list'', p_args = Some groceries,
           p_timestamp = 1000\<rparr>"
    by (simp_all add: awaiting_alias)
qed

lemma confirmedOnce_db: "db confirmedOnce = [(''create_list'', Some groceries)]"
proof -
  have "handleConfirmation journalEnv 2000 byIdArgs awaiting =
      executeConfirmation journalEnv 2000 (Some ''op_1_1000'')
        (Some \<lparr>p_id = None, p_name = ''create_list'', p_args = Some groceries, p_timestamp = 1000\<rparr>)
        True awaiting"
    by (simp add: byIdArgs_def handleConfirmation_id [OF _ _ awaiting_entry] field_def)
  then have "db confirmedOnce =
      snd (executeOperation journalEnv ''create_list'' (Some groceries) (db awaiting))"
    unfolding confirmedOnce_def
    by (simp add: callTool_confirm(2) [of _ byIdArgs] confirmByIdRequest_def steady_def
        executeConfirmation_db)
  then show ?thesis
    by (simp add: executeOperation_def operationNames_def journalEnv_def awaiting_def)
qed

text \<open>
  Claim C1, at the input where the code departs from it. The list creation is requested
  and confirmed by its id, which executes it once. A second confirmation by the same id
  fails with \<open>InvalidRequest\<close> (not found) as claimed. A second confirmation by the
  boolean flag or by free text resolves the stale alias and fails too, without executing
  anything again, but with the \<open>TypeError\<close> of reading \<open>pendingOp.name\<close>, which the
  handler reports as an \<open>InternalError\<close>, not with \<open>InvalidRequest\<close>.
\<close>

theorem C1_stale_alias_type_error:
  "db confirmedOnce = [(''create_list'', Some groceries)] \<and>
   fst (callTool journalEnv (steady 3000) confirmByIdRequest confirmedOnce) =
     Inl (McpError InvalidRequest ''No pending operation found with ID: op_1_1000'') \<and>
   fst (callTool journalEnv (steady 3000) confirmByFlagRequest confirmedOnce) =
     Inl (McpError InternalError
       ''Error executing confirm_operation: Cannot read properties of undefined (reading 'name')'') \<and>
   fst (callTool journalEnv (steady 3000) confirmByTextRequest confirmedOnce) =
     Inl (McpError InternalError
       ''Error executing confirm_operation: Cannot read properties of undefined (reading 'name')'') \<and>
   db (snd (callTool journalEnv (steady 3000) confirmByIdRequest confirmedOnce)) = db confirmedOnce \<and>
   db (snd (callTool journalEnv (steady 3000) confirmByFlagRequest confirmedOnce)) = db confirmedOnce \<and>
   db (snd (callTool journalEnv (steady 3000) confirmByTextRequest confirmedOnce)) = db confirmedOnce"
proof -
  have byId: "handleConfirmation journalEnv 3000 byIdArgs confirmedOnce =
      (Inl (McpError InvalidRequest ''No pending operation found with ID: op_1_1000''),
       confirmedOnce)"
    using confirmedOnce_pending(1)
    by (simp add: handleConfirmation_def byIdArgs_def field_def)
  have byFlag: "handleConfirmation journalEnv 3000 byFlagArgs confirmedOnce
      = (Inl undefinedName, confirmedOnce)"
    by (rule stale_alias_flag [OF confirmedOnce_pending(2) _ confirmedOnce_pending(1)])
       (simp_all add: byFlagArgs_def field_def)
  have yes: "classifyResponse confirmWords cancelWords ''yes'' = Some True"
    by (simp add: classifyResponse_def confirmWords_def eval_text)
  have byText: "handleConfirmation journalEnv 3000 byTextArgs confirmedOnce
      = (Inl undefinedName, confirmedOnce)"
    by (rule stale_alias_text [OF confirmedOnce_pending(2) _ confirmedOnce_pending(1) _ _ yes])
       (simp_all add: byTextArgs_def field_def)
  have n: "r_name confirmByIdRequest = ''confirm_operation''"
    "r_name confirmByFlagRequest = ''confirm_operation''"
    "r_name confirmByTextRequest = ''confirm_operation''"
    by (simp_all add: confirmByIdRequest_def confirmByFlagRequest_def confirmByTextRequest_def)
  have a: "r_arguments confirmByIdRequest = Some byIdArgs"
    "r_arguments confirmByFlagRequest = Some byFlagArgs"
    "r_arguments confirmByTextRequest = Some byTextArgs"
    by (simp_all add: confirmByIdRequest_def confirmByFlagRequest_def confirmByTextRequest_def)
  have t: "recordTime (steady 3000) = 3000"
    by (simp add: steady_def)
  show ?thesis
    by (simp add: confirmedOnce_db callTool_confirm(2,3) [OF n(1) a(1)]
        callTool_confirm(2,3) [OF n(2) a(2)] callTool_confirm(2,3) [OF n(3) a(3)]
        t byId byFlag byText undefinedName_def)
qed

text \<open>
  The alias key is itself accepted as an explicit id: the alias entry is then executed
  and deleted while the entry under the real id stays pending and can be executed again.
\<close>

lemma alias_key_confirmed_twice:
  "db (snd (handleConfirmation journalEnv 3000
             [(''operationId'', JStr ''op_1_1000''), (''confirm'', JBool True)]
             (snd (handleConfirmation journalEnv 2000
                     [(''operationId'', JStr ''last_operation''), (''confirm'', JBool True)]
                     awaiting)))) =
   [(''create_list'', Some groceries), (''create_list'', Some groceries)]"
proof -
  let ?first = "snd (handleConfirmation journalEnv 2000
                     [(''operationId'', JStr ''last_operation''), (''confirm'', JBool True)]
                     awaiting)"
  have a: "field [(''operationId'', JStr ''last_operation''), (''confirm'', JBool True)]
      ''operationId'' = Some (JStr ''last_operation'')"
    and b: "field [(''operationId'', JStr ''op_1_1000''), (''confirm'', JBool True)]
      ''operationId'' = Some (JStr ''op_1_1000'')"
    by (simp_all add: field_def)
  have run1: "snd (executeOperation journalEnv ''create_list'' (Some groceries) []) =
      [(''create_list'', Some groceries)]"
    and run2: "snd (executeOperation journalEnv ''create_list'' (Some groceries)
        [(''create_list'', Some groceries)]) = [(''create_list'', Some groceries), (''create_list'', Some groceries)]"
    by (simp_all add: executeOperation_def operationNames_def journalEnv_def)
  have "pendingOperations ?first = (pendingOperations awaiting)(''last_operation'' := None)"
    using a awaiting_alias by (simp add: handleConfirmation_id_pending)
  then have still: "pendingOperations ?first ''op_1_1000'' =
      Some \<lparr>p_id = None, p_name = ''create_list'', p_args = Some groceries, p_timestamp = 1000\<rparr>"
    by (simp add: awaiting_entry)
  have "handleConfirmation journalEnv 2000
      [(''operationId'', JStr ''last_operation''), (''confirm'', JBool True)] awaiting =
      executeConfirmation journalEnv 2000 (Some ''last_operation'')
        (Some \<lparr>p_id = Some ''op_1_1000'', p_name = ''create_list'', p_args = Some groceries,
               p_timestamp = 1000\<rparr>) True awaiting"
    using handleConfirmation_id [OF a _ awaiting_alias, of journalEnv 2000]
    by (simp add: field_def)
  then have d1: "db ?first = [(''create_list'', Some groceries)]"
    using run1 by (simp add: executeConfirmation_db awaiting_def)
  have "handleConfirmation journalEnv 3000
      [(''operationId'', JStr ''op_1_1000''), (''confirm'', JBool True)] ?first =
      executeConfirmation journalEnv 3000 (Some ''op_1_1000'')
        (Some \<lparr>p_id = None, p_name = ''create_list'', p_args = Some groceries, p_timestamp = 1000\<rparr>)
        True ?first"
    using handleConfirmation_id [OF b _ still, of journalEnv 3000]
    by (simp add: field_def)
  then show ?thesis
    using run2 by (simp add: executeConfirmation_db d1)
qed

end
